theory Spec2Isabelle
  imports Main
begin

section \<open>Python values shared by the models\<close>

text \<open>
  Exceptions of the Python sources are values: a function that can raise returns
  \<open>py_error + 'a\<close>, with \<open>Inl\<close> the exception.
\<close>

datatype py_error =
    TypeError
  | AttributeError
  | KeyError
  | IndexError
  | NameError
  | FileNotFoundError
  | SystemExit
  | ForeignError

text \<open>
  A Python \<open>dict\<close> keeps its keys in insertion order; assigning to a key that is
  present replaces the value where it stands.
\<close>

fun dict_set :: "'k \<Rightarrow> 'v \<Rightarrow> ('k \<times> 'v) list \<Rightarrow> ('k \<times> 'v) list" where
  "dict_set k v [] = [(k, v)]"
| "dict_set k v ((k', v') # kvs) =
     (if k' = k then (k, v) # kvs else (k', v') # dict_set k v kvs)"

fun dict_get :: "('k \<times> 'v) list \<Rightarrow> 'k \<Rightarrow> 'v option" where
  "dict_get [] k = None"
| "dict_get ((k', v) # kvs) k = (if k' = k then Some v else dict_get kvs k)"

section \<open>TestCase (moosetools/testharness/base/TestCase.py)\<close>

subsection \<open>The Result enumeration\<close>

datatype Result = SKIP | PASS | ERROR | EXCEPTION | FATAL

fun result_value :: "Result \<Rightarrow> nat" where
  "result_value SKIP = 11"
| "result_value PASS = 12"
| "result_value ERROR = 13"
| "result_value EXCEPTION = 14"
| "result_value FATAL = 15"

fun exitcode :: "Result \<Rightarrow> nat" where
  "exitcode SKIP = 0"
| "exitcode PASS = 0"
| "exitcode ERROR = 1"
| "exitcode EXCEPTION = 1"
| "exitcode FATAL = 1"

fun display :: "Result \<Rightarrow> string" where
  "display SKIP = ''SKIP''"
| "display PASS = ''OK''"
| "display ERROR = ''ERROR''"
| "display EXCEPTION = ''EXCEPTION''"
| "display FATAL = ''FATAL''"

subsection \<open>One stage: \<open>TestCase.executeObject\<close>\<close>

text \<open>
  \<open>executeObject\<close> talks to the Controller in the attribute \<open>_controller\<close> and to the
  object (a Runner or a Differ), whose classes are not part of the sources at hand. What
  it observes of the Controller for one object: whether \<open>controller.execute(obj)\<close> raises,
  whether the Controller or the object has logged an error afterwards, whether the
  Controller finds the object runnable, and the text captured. What it observes of the
  object: whether \<open>obj.execute\<close> raises, its return code, whether the object has logged an
  error while executing, the text captured, and the text captured while an error is
  reported at one of the five places.
\<close>

datatype error_site =
    ControllerException
  | ControllerError
  | ObjectErrorByController
  | ExecuteException
  | ExecuteError

record control =
  controller_raises :: bool
  controller_status :: bool
  object_status_pre :: bool
  is_runnable :: bool
  c_run_out :: string

record execution =
  execute_raises :: bool
  execute_returncode :: "int option"
  object_status_post :: bool
  run_out :: string

text \<open>
  The arguments \<open>*args\<close> handed on to \<open>obj.execute\<close>: none for the Runner, the Runner's
  return code and output for a Differ.
\<close>

type_synonym exec_args = "(int option \<times> string) option"

record test_object =
  obj_name :: string
  obj_execute :: "exec_args \<Rightarrow> execution"
  err_out :: "error_site \<Rightarrow> string"

record controller =
  ctl_execute :: "test_object \<Rightarrow> control"

text \<open>
  A \<open>TestCase\<close> object: the attributes \<open>_runner\<close> and \<open>_differs\<close> (\<open>None\<close> when the
  parameter \<open>differs\<close> is not set) and \<open>_controller\<close>, \<open>None\<close> when the object has no
  such attribute. \<open>__init__\<close> assigns the first two; its assignment of \<open>_controller\<close> is
  commented out.
\<close>

record test_case =
  tc_runner :: test_object
  tc_differs :: "test_object list option"
  tc_controller :: "controller option"

definition TestCase_init :: "test_object \<Rightarrow> test_object list option \<Rightarrow> test_case" where
  "TestCase_init runner differs =
     \<lparr> tc_runner = runner, tc_differs = differs, tc_controller = None \<rparr>"

text \<open>The body of \<open>executeObject\<close> for an object that has a Controller.\<close>

definition run_stage :: "controller \<Rightarrow> test_object \<Rightarrow> exec_args \<Rightarrow> Result \<times> string \<times> int option" where
  "run_stage ctl obj args =
     (let c = ctl_execute ctl obj; x = obj_execute obj args in
      if controller_raises c then (FATAL, err_out obj ControllerException, None)
      else if controller_status c then (FATAL, err_out obj ControllerError, None)
      else if object_status_pre c then (FATAL, err_out obj ObjectErrorByController, None)
      else if \<not> is_runnable c then (SKIP, c_run_out c, None)
      else if execute_raises x then (EXCEPTION, err_out obj ExecuteException, None)
      else if object_status_post x then (ERROR, err_out obj ExecuteError, execute_returncode x)
      else (PASS, run_out x, execute_returncode x))"

text \<open>
  Without the attribute, \<open>self._controller.reset()\<close> raises \<open>AttributeError\<close> in the
  \<open>try\<close> block, the handler reads \<open>self._controller\<close> again, and the second
  \<open>AttributeError\<close> leaves \<open>executeObject\<close>.
\<close>

definition executeObject ::
  "test_case \<Rightarrow> test_object \<Rightarrow> exec_args \<Rightarrow> py_error + (Result \<times> string \<times> int option)" where
  "executeObject tc obj args =
     (case tc_controller tc of
        None \<Rightarrow> Inl AttributeError
      | Some ctl \<Rightarrow> Inr (run_stage ctl obj args))"

subsection \<open>\<open>TestCase.execute\<close>\<close>

type_synonym results = "(string \<times> Result \<times> string) list"

text \<open>
  The loop over the Differs. Besides the state and the \<open>results\<close> dictionary of the
  source it returns the names of the objects \<open>executeObject\<close> was called on, in call
  order.
\<close>

fun execute_differs ::
  "test_case \<Rightarrow> test_object list \<Rightarrow> int option \<Rightarrow> string \<Rightarrow> Result \<Rightarrow> results \<Rightarrow> string list
     \<Rightarrow> py_error + ((Result \<times> results) \<times> string list)" where
  "execute_differs tc [] returncode out state res calls = Inr ((state, res), calls)"
| "execute_differs tc (obj # objs) returncode out state res calls =
     (case executeObject tc obj (Some (returncode, out)) of
        Inl e \<Rightarrow> Inl e
      | Inr (d_state, d_out, _) \<Rightarrow>
          execute_differs tc objs returncode out
            (if d_state \<noteq> SKIP \<and> exitcode d_state > 0 then d_state else state)
            (dict_set (obj_name obj) (d_state, d_out) res)
            (calls @ [obj_name obj]))"

text \<open>
  \<open>execute\<close>. After a Runner stage that lets the Differs run, \<open>for obj in self._differs\<close>
  raises \<open>TypeError\<close> when \<open>_differs\<close> is \<open>None\<close>.
\<close>

definition execute_trace :: "test_case \<Rightarrow> py_error + ((Result \<times> results) \<times> string list)" where
  "execute_trace tc =
     (case executeObject tc (tc_runner tc) None of
        Inl e \<Rightarrow> Inl e
      | Inr (state, out, returncode) \<Rightarrow>
          (let res = dict_set (obj_name (tc_runner tc)) (state, out) [];
               calls = [obj_name (tc_runner tc)]
           in if state = SKIP \<or> exitcode state > 0 then Inr ((state, res), calls)
              else (case tc_differs tc of
                      None \<Rightarrow> Inl TypeError
                    | Some differs \<Rightarrow>
                        execute_differs tc differs returncode out state res calls)))"


definition executed :: "test_case \<Rightarrow> py_error + string list" where
  "executed tc = map_sum id snd (execute_trace tc)"



text \<open>
  The Result of the Runner stage and of each Differ stage, as \<open>execute\<close> obtains them with
  the Controller \<open>ctl\<close>.
\<close>

definition runner_result :: "controller \<Rightarrow> test_case \<Rightarrow> Result" where
  "runner_result ctl tc = fst (run_stage ctl (tc_runner tc) None)"



subsection \<open>Concrete test cases\<close>

text \<open>
  A Controller that finds every object runnable and logs nothing, and an object whose
  stage under that Controller yields a given Result: PASS when nothing goes wrong, ERROR
  when the object logs an error while executing, EXCEPTION when its \<open>execute\<close> raises. A
  Controller that finds objects of a given name not runnable makes them SKIP, and one
  that logs an error for objects of a given name makes them FATAL.
\<close>

definition plain_control :: control where
  "plain_control =
     \<lparr> controller_raises = False, controller_status = False, object_status_pre = False,
       is_runnable = True, c_run_out = [] \<rparr>"

definition sample_controller :: controller where
  "sample_controller =
     \<lparr> ctl_execute = (\<lambda>obj.
         if obj_name obj = ''skipped'' then plain_control \<lparr> is_runnable := False \<rparr>
         else if obj_name obj = ''fatal'' then plain_control \<lparr> controller_status := True \<rparr>
         else plain_control) \<rparr>"

definition plain_execution :: execution where
  "plain_execution =
     \<lparr> execute_raises = False, execute_returncode = Some 0, object_status_post = False,
       run_out = ''ok'' \<rparr>"

definition object_named :: "string \<Rightarrow> test_object" where
  "object_named n =
     \<lparr> obj_name = n,
       obj_execute = (\<lambda>_. if n = ''error'' then plain_execution \<lparr> object_status_post := True \<rparr>
                          else plain_execution),
       err_out = (\<lambda>_. ''error'') \<rparr>"




section \<open>QueueManager (moosetest/schedulers/QueueManager.py)\<close>

subsection \<open>\<open>QueueManager.reserveSlots\<close>\<close>

text \<open>
  Modelled from the spec: the Scheduler's slot budget and a Job's slot demand (the classes
  \<open>Scheduler\<close> and \<open>Job\<close> are not among the sources); \<open>reserveSlots\<close> itself is the
  method of \<open>QueueManager\<close>.
\<close>

record slot_scheduler =
  slot_budget :: nat
  slots_in_use :: nat

record slot_job =
  job_slots :: nat

definition reserveSlots :: "slot_scheduler \<Rightarrow> slot_job \<Rightarrow> 'lock \<Rightarrow> bool" where
  "reserveSlots self job j_lock = True"

section \<open>Python strings\<close>

text \<open>
  Strings are lists of characters. \<open>starts_with s p\<close> is \<open>s.startswith(p)\<close>,
  \<open>py_in sub s\<close> is \<open>sub in s\<close>, \<open>py_replace s old new\<close> is \<open>s.replace(old, new)\<close>:
  the occurrences of \<open>old\<close> are replaced from left to right without overlap, and an
  empty \<open>old\<close> matches before every character and at the end.
\<close>

fun starts_with :: "string \<Rightarrow> string \<Rightarrow> bool" where
  "starts_with s [] = True"
| "starts_with [] (p # ps) = False"
| "starts_with (c # cs) (p # ps) = (c = p \<and> starts_with cs ps)"

fun py_in :: "string \<Rightarrow> string \<Rightarrow> bool" where
  "py_in sub [] = (sub = [])"
| "py_in sub (c # cs) = (starts_with (c # cs) sub \<or> py_in sub cs)"

function py_replace :: "string \<Rightarrow> string \<Rightarrow> string \<Rightarrow> string" where
  "py_replace s old new =
     (if old = [] then new @ concat (map (\<lambda>c. c # new) s)
      else case s of
             [] \<Rightarrow> []
           | c # cs \<Rightarrow>
               if starts_with s old then new @ py_replace (drop (length old) s) old new
               else c # py_replace cs old new)"
  by pat_completeness auto
termination
  by (relation "measure (\<lambda>(s, old, new). length s)") auto

declare py_replace.simps [simp del]

text \<open>\<open>str.upper\<close> on ASCII text: the letters a to z are mapped to A to Z.\<close>

definition upper_char :: "char \<Rightarrow> char" where
  "upper_char c =
     (case dict_get (zip ''abcdefghijklmnopqrstuvwxyz'' ''ABCDEFGHIJKLMNOPQRSTUVWXYZ'') c of
        Some u \<Rightarrow> u
      | None \<Rightarrow> c)"

definition py_upper :: "string \<Rightarrow> string" where
  "py_upper s = map upper_char s"

section \<open>QueueManager: the submission script\<close>

subsection \<open>\<open>QueueManager.createQueueScript\<close>\<close>

text \<open>The placeholder of a key: \<open>'<' + key.upper() + '>'\<close>.\<close>

definition placeholder :: "string \<Rightarrow> string" where
  "placeholder key = ''<'' @ py_upper key @ ''>''"

text \<open>
  The first loop, "Do all of the replacements for valid parameters", over the items of
  the \<open>template\<close> dictionary in insertion order; \<open>str_of\<close> is Python's \<open>str\<close> on the
  values.
\<close>

fun replace_supplied :: "('v \<Rightarrow> string) \<Rightarrow> (string \<times> 'v) list \<Rightarrow> string \<Rightarrow> string" where
  "replace_supplied str_of [] content = content"
| "replace_supplied str_of ((key, v) # kvs) content =
     replace_supplied str_of kvs
       (if py_in (py_upper key) content
        then py_replace content (placeholder key) (str_of v) else content)"

text \<open>The second loop, "Strip out parameters that were not supplied", over the same keys.\<close>

fun strip_unsupplied :: "string list \<Rightarrow> string \<Rightarrow> string" where
  "strip_unsupplied [] content = content"
| "strip_unsupplied (key # keys) content =
     strip_unsupplied keys
       (if \<not> py_in (py_upper key) content
        then py_replace content (placeholder key) [] else content)"

text \<open>
  \<open>createQueueScript\<close> reads the file named by the \<open>queue_template\<close> parameter
  (\<open>template_file\<close>: its content, or \<open>None\<close> when opening it raises \<open>IOError\<close>), opens
  \<open>template['launch_script']\<close> for writing (\<open>writable\<close> says whether that succeeds) and
  writes the content after both loops. An \<open>IOError\<close> ends in \<open>sys.exit(1)\<close>. The result
  is the path written and the text written to it.
\<close>

definition createQueueScript ::
  "string option \<Rightarrow> bool \<Rightarrow> ('v \<Rightarrow> string) \<Rightarrow> (string \<times> 'v) list \<Rightarrow> py_error + ('v \<times> string)" where
  "createQueueScript template_file writable str_of template =
     (case template_file of
        None \<Rightarrow> Inl SystemExit
      | Some content \<Rightarrow>
          (case dict_get template ''launch_script'' of
             None \<Rightarrow> Inl KeyError
           | Some path \<Rightarrow>
               if \<not> writable then Inl SystemExit
               else Inr (path,
                 strip_unsupplied (map fst template)
                   (replace_supplied str_of template content))))"

section \<open>RedirectOutput (moosetools/testharness/base/TestCase.py)\<close>

text \<open>
  Threads are identified by their \<open>ident\<close>, a number. The two \<open>defaultdict(io.StringIO)\<close>
  objects of a \<open>RedirectOutput\<close> are dictionaries from thread ident to the text written
  so far; reading a key that is missing creates an empty buffer.
\<close>

datatype stream = Stdout | Stderr

datatype buffers_ref = OutBuffers | ErrBuffers

type_synonym thread_buffers = "(nat \<times> string) list"

definition getvalue :: "thread_buffers \<Rightarrow> nat \<Rightarrow> string" where
  "getvalue d t = (case dict_get d t of None \<Rightarrow> [] | Some s \<Rightarrow> s)"

text \<open>
  The state of the process while one \<open>RedirectOutput\<close> exists: the two dictionaries,
  whether \<open>sys.stdout\<close> and \<open>sys.stderr\<close> are the \<open>SysRedirect\<close> shims, the ident of the
  main thread, the text that has reached the original streams, and the number of handlers
  of the root logger.
\<close>

record redirect_state =
  out_buffers :: thread_buffers
  err_buffers :: thread_buffers
  redirected :: bool
  main_thread :: nat
  terminal_stdout :: string
  terminal_stderr :: string
  log_handlers :: nat

text \<open>
  The attributes \<open>RedirectOutput.__init__\<close> assigns that hold the dictionaries. No other
  method assigns an attribute.
\<close>

definition RedirectOutput_attrs :: "(string \<times> buffers_ref) list" where
  "RedirectOutput_attrs = [(''_stdout'', OutBuffers), (''_stderr'', ErrBuffers)]"

definition RedirectOutput_init :: "nat \<Rightarrow> nat \<Rightarrow> redirect_state" where
  "RedirectOutput_init main handlers =
     \<lparr> out_buffers = [], err_buffers = [], redirected = False, main_thread = main,
       terminal_stdout = [], terminal_stderr = [], log_handlers = handlers \<rparr>"

definition deref :: "redirect_state \<Rightarrow> buffers_ref \<Rightarrow> thread_buffers" where
  "deref s r = (case r of OutBuffers \<Rightarrow> out_buffers s | ErrBuffers \<Rightarrow> err_buffers s)"

text \<open>
  \<open>__enter__\<close> installs the shims and then takes \<open>logger.handlers[0]\<close>, which raises
  \<open>IndexError\<close> when the root logger has no handler. \<open>__exit__\<close> restores the streams.
\<close>

definition redirect_enter :: "redirect_state \<Rightarrow> py_error + redirect_state" where
  "redirect_enter s =
     (if log_handlers s = 0 then Inl IndexError else Inr (s \<lparr> redirected := True \<rparr>))"

definition redirect_exit :: "redirect_state \<Rightarrow> py_error + redirect_state" where
  "redirect_exit s =
     (if log_handlers s = 0 then Inl IndexError else Inr (s \<lparr> redirected := False \<rparr>))"

text \<open>
  A write of thread \<open>t\<close> to \<open>sys.stdout\<close> or \<open>sys.stderr\<close>. With the shim installed,
  \<open>SysRedirect.write\<close> passes the main thread's text to the original stream and appends
  any other thread's text to that thread's buffer in the shim's dictionary.
\<close>

definition to_terminal :: "stream \<Rightarrow> string \<Rightarrow> redirect_state \<Rightarrow> redirect_state" where
  "to_terminal st msg s =
     (case st of
        Stdout \<Rightarrow> s \<lparr> terminal_stdout := terminal_stdout s @ msg \<rparr>
      | Stderr \<Rightarrow> s \<lparr> terminal_stderr := terminal_stderr s @ msg \<rparr>)"

definition to_buffer :: "stream \<Rightarrow> nat \<Rightarrow> string \<Rightarrow> redirect_state \<Rightarrow> redirect_state" where
  "to_buffer st t msg s =
     (case st of
        Stdout \<Rightarrow> s \<lparr> out_buffers := dict_set t (getvalue (out_buffers s) t @ msg) (out_buffers s) \<rparr>
      | Stderr \<Rightarrow> s \<lparr> err_buffers := dict_set t (getvalue (err_buffers s) t @ msg) (err_buffers s) \<rparr>)"

definition sys_write :: "stream \<times> nat \<times> string \<Rightarrow> redirect_state \<Rightarrow> redirect_state" where
  "sys_write w s =
     (case w of (st, t, msg) \<Rightarrow>
        if redirected s \<and> t \<noteq> main_thread s then to_buffer st t msg s
        else to_terminal st msg s)"

text \<open>A sequence of writes, in the order in which they take effect.\<close>

definition sys_writes :: "(stream \<times> nat \<times> string) list \<Rightarrow> redirect_state \<Rightarrow> redirect_state" where
  "sys_writes ws s = fold sys_write ws s"

text \<open>
  The accessors, called by thread \<open>t\<close>. \<open>stdout\<close> reads the attribute \<open>_stdout\<close>;
  \<open>stderr\<close> reads the attribute \<open>_stdrr\<close>. An attribute that was never assigned raises
  \<open>AttributeError\<close>.
\<close>

definition read_attr :: "string \<Rightarrow> redirect_state \<Rightarrow> nat \<Rightarrow> py_error + string" where
  "read_attr name s t =
     (case dict_get RedirectOutput_attrs name of
        None \<Rightarrow> Inl AttributeError
      | Some r \<Rightarrow> Inr (getvalue (deref s r) t))"

definition redirect_stdout :: "redirect_state \<Rightarrow> nat \<Rightarrow> py_error + string" where
  "redirect_stdout s t = read_attr ''_stdout'' s t"

definition redirect_stderr :: "redirect_state \<Rightarrow> nat \<Rightarrow> py_error + string" where
  "redirect_stderr s t = read_attr ''_stdrr'' s t"

text \<open>The text a thread wrote to a stream in a sequence of writes.\<close>

definition written_by :: "stream \<Rightarrow> nat \<Rightarrow> (stream \<times> nat \<times> string) list \<Rightarrow> string" where
  "written_by st t ws = concat (map (\<lambda>(st', t', msg). if st' = st \<and> t' = t then msg else []) ws)"

section \<open>Runner (moosetools/moosetest/base/Runner.py)\<close>

subsection \<open>Paths and the file system\<close>

text \<open>\<open>os.path.isabs\<close> and \<open>os.path.join\<close> of two components, on POSIX paths.\<close>

definition isabs :: "string \<Rightarrow> bool" where
  "isabs p = starts_with p ''/''"

definition path_join :: "string \<Rightarrow> string \<Rightarrow> string" where
  "path_join a b =
     (if isabs b then b
      else if a = [] \<or> last a = CHR ''/'' then a @ b
      else a @ ''/'' @ b)"

text \<open>
  The file system as the Runner sees it: the regular files and the directories, by their
  absolute paths, and the working directory of the process. A relative path is resolved
  against the working directory.
\<close>

record filesystem =
  fs_files :: "string list"
  fs_dirs :: "string list"
  fs_cwd :: string

definition abspath :: "filesystem \<Rightarrow> string \<Rightarrow> string" where
  "abspath fs p = path_join (fs_cwd fs) p"

definition isfile :: "filesystem \<Rightarrow> string \<Rightarrow> bool" where
  "isfile fs p = (abspath fs p \<in> set (fs_files fs))"

definition os_remove :: "string \<Rightarrow> filesystem \<Rightarrow> filesystem" where
  "os_remove p fs = fs \<lparr> fs_files := removeAll (abspath fs p) (fs_files fs) \<rparr>"

fun strip_prefix :: "string \<Rightarrow> string \<Rightarrow> string option" where
  "strip_prefix [] s = Some s"
| "strip_prefix (p # ps) [] = None"
| "strip_prefix (p # ps) (c # cs) = (if p = c then strip_prefix ps cs else None)"

text \<open>The name of \<open>p\<close> as an entry of directory \<open>d\<close>, when \<open>p\<close> lies directly in \<open>d\<close>.\<close>

definition entry_name :: "string \<Rightarrow> string \<Rightarrow> string option" where
  "entry_name d p =
     (case strip_prefix (if d \<noteq> [] \<and> last d = CHR ''/'' then d else d @ ''/'') p of
        None \<Rightarrow> None
      | Some n \<Rightarrow> if n \<noteq> [] \<and> CHR ''/'' \<notin> set n then Some n else None)"

text \<open>
  \<open>os.listdir(path)\<close>: the names of the entries of a directory, and \<open>FileNotFoundError\<close>
  when there is no such directory. \<open>os.listdir()\<close> and \<open>os.listdir(None)\<close> list the
  working directory.
\<close>

definition listdir :: "filesystem \<Rightarrow> string option \<Rightarrow> py_error + string list" where
  "listdir fs path =
     (let d = (case path of None \<Rightarrow> fs_cwd fs | Some p \<Rightarrow> abspath fs p)
      in if d \<notin> set (fs_dirs fs) then Inl FileNotFoundError
         else Inr (List.map_filter (entry_name d) (fs_files fs @ fs_dirs fs)))"

subsection \<open>Parameters and state of a Runner\<close>

text \<open>
  The \<open>file\<close> group of parameters, of a Runner or of a Differ: \<open>base\<close>, \<open>names\<close>,
  \<open>check_created\<close> (no default) and \<open>clean\<close> (default True). A parameter that is not
  set has the value \<open>None\<close>.
\<close>

record file_group =
  fg_base :: "string option"
  fg_names :: "string list option"
  fg_check_created :: "bool option"
  fg_clean :: bool

record runner_params =
  r_name :: string
  r_differs :: "file_group list option"
  r_file :: file_group

text \<open>
  Modelled from the spec: what \<open>mooseutils.git_root_dir\<close> and \<open>mooseutils.git_ls_files\<close>
  return (the module is not among the sources): the root of the working copy, if any,
  and the version-controlled files under a directory.
\<close>

record git_view =
  git_root_dir :: "string option"
  git_ls_files :: "string \<Rightarrow> string list"

datatype log_entry =
    ErrorNotAbsolute "string list"
  | ErrorTracked "string list"
  | InfoRemoving string
  | ErrorExist "string list"
  | ErrorCheckCreatedNoBase
  | ErrorNotCreated "string list"
  | ErrorUnexpected "string list"

fun is_error :: "log_entry \<Rightarrow> bool" where
  "is_error (InfoRemoving _) = False"
| "is_error _ = True"

text \<open>
  \<open>filenames\<close> returns a Python \<open>set\<close> when \<open>base\<close> is not set and a \<open>list\<close> when it
  is. The elements of a set are kept as a list without repetitions; the order in which
  Python iterates over a set is not specified.
\<close>

datatype names_coll = PySet "string list" | PyList "string list"

fun elems :: "names_coll \<Rightarrow> string list" where
  "elems (PySet xs) = xs"
| "elems (PyList xs) = xs"

record runner_state =
  expected_files :: "names_coll option"
  pre_execute_files :: "string list option"
  r_log :: "log_entry list"

definition Runner_init :: runner_state where
  "Runner_init = \<lparr> expected_files = None, pre_execute_files = None, r_log = [] \<rparr>"

definition log_add :: "log_entry \<Rightarrow> runner_state \<Rightarrow> runner_state" where
  "log_add e st = st \<lparr> r_log := r_log st @ [e] \<rparr>"

subsection \<open>\<open>Runner.filenames\<close> and \<open>Runner._getExpectedFiles\<close>\<close>

definition filenames :: "file_group \<Rightarrow> names_coll" where
  "filenames fg =
     (let names = remdups (case fg_names fg of None \<Rightarrow> [] | Some ns \<Rightarrow> ns)
      in case fg_base fg of
           None \<Rightarrow> PySet names
         | Some base_dir \<Rightarrow>
             PyList (map (\<lambda>fname. if isabs fname then fname else path_join base_dir fname) names))"

text \<open>
  \<open>expected += other\<close>: a list is extended by the elements of any collection; a set has
  no \<open>+=\<close> and no \<open>+\<close>, so the statement raises \<open>TypeError\<close>.
\<close>

fun iadd :: "names_coll \<Rightarrow> names_coll \<Rightarrow> py_error + names_coll" where
  "iadd (PyList xs) other = Inr (PyList (xs @ elems other))"
| "iadd (PySet xs) other = Inl TypeError"

fun add_differs :: "file_group list \<Rightarrow> names_coll \<Rightarrow> py_error + names_coll" where
  "add_differs [] expected = Inr expected"
| "add_differs (differ # differs) expected =
     (case iadd expected (filenames differ) of
        Inl e \<Rightarrow> Inl e
      | Inr expected' \<Rightarrow> add_differs differs expected')"

definition getExpectedFiles :: "runner_params \<Rightarrow> py_error + names_coll" where
  "getExpectedFiles r =
     add_differs (case r_differs r of None \<Rightarrow> [] | Some ds \<Rightarrow> ds) (filenames (r_file r))"

subsection \<open>\<open>Runner._preExecuteExpectedFiles\<close>\<close>

text \<open>The loop "Remove expected output".\<close>

fun clean_files :: "string list \<Rightarrow> runner_state \<times> filesystem \<Rightarrow> runner_state \<times> filesystem" where
  "clean_files [] sf = sf"
| "clean_files (fname # fnames) (st, fs) =
     clean_files fnames
       (if isfile fs fname then (log_add (InfoRemoving fname) st, os_remove fname fs)
        else (st, fs))"

text \<open>The version-controlled files among the expected ones, when there is a working copy.\<close>

definition tracked :: "git_view \<Rightarrow> runner_params \<Rightarrow> string list \<Rightarrow> string list" where
  "tracked git r F =
     (case git_root_dir git of
        None \<Rightarrow> []
      | Some root_dir \<Rightarrow>
          if root_dir = [] then []
          else filter (\<lambda>g. g \<in> set F)
                 (remdups (git_ls_files git
                    (case fg_base (r_file r) of
                       None \<Rightarrow> root_dir
                     | Some b \<Rightarrow> if b = [] then root_dir else b))))"

text \<open>The last part, "Store directory content".\<close>

definition store_directory_content ::
  "runner_params \<Rightarrow> runner_state \<Rightarrow> filesystem \<Rightarrow> py_error + runner_state" where
  "store_directory_content r st fs =
     (let check_created_files = fg_check_created (r_file r);
          base = fg_base (r_file r)
      in if check_created_files = Some True \<and> base = None
         then Inr (log_add ErrorCheckCreatedNoBase st)
         else if check_created_files = Some True \<or> (check_created_files = None \<and> base \<noteq> None)
         then (case listdir fs None of
                 Inl e \<Rightarrow> Inl e
               | Inr entries \<Rightarrow>
                   (case base of
                      None \<Rightarrow> if entries = [] then Inr (st \<lparr> pre_execute_files := Some [] \<rparr>)
                               else Inl TypeError
                    | Some base_dir \<Rightarrow>
                        Inr (st \<lparr> pre_execute_files :=
                                    Some (remdups (map (path_join base_dir) entries)) \<rparr>)))
         else Inr st)"

definition preExecute ::
  "git_view \<Rightarrow> runner_params \<Rightarrow> runner_state \<Rightarrow> filesystem
     \<Rightarrow> py_error + (runner_state \<times> filesystem)" where
  "preExecute git r st0 fs =
     (case getExpectedFiles r of
        Inl e \<Rightarrow> Inl e
      | Inr expected \<Rightarrow>
          (let st = st0 \<lparr> expected_files := Some expected \<rparr>;
               F = elems expected;
               non_abs = filter (\<lambda>fname. \<not> isabs fname) F
           in if non_abs \<noteq> [] then Inr (log_add (ErrorNotAbsolute non_abs) st, fs)
              else if tracked git r F \<noteq> [] then Inr (log_add (ErrorTracked (tracked git r F)) st, fs)
              else
                (case (if fg_clean (r_file r) then clean_files F (st, fs) else (st, fs)) of
                   (st', fs') \<Rightarrow>
                     (let exist = filter (isfile fs') F
                      in if exist \<noteq> [] then Inr (log_add (ErrorExist exist) st', fs')
                         else (case store_directory_content r st' fs' of
                                 Inl e \<Rightarrow> Inl e
                               | Inr st'' \<Rightarrow> Inr (st'', fs'))))))"

subsection \<open>\<open>Runner._postExecuteExpectedFiles\<close>\<close>

definition postExecute :: "runner_params \<Rightarrow> runner_state \<Rightarrow> filesystem \<Rightarrow> py_error + runner_state" where
  "postExecute r st0 fs =
     (case expected_files st0 of
        None \<Rightarrow> Inl TypeError
      | Some expected \<Rightarrow>
          (let F = elems expected;
               do_not_exist = filter (\<lambda>fname. \<not> isfile fs fname) F;
               st = (if do_not_exist \<noteq> [] then log_add (ErrorNotCreated do_not_exist) st0 else st0)
           in case pre_execute_files st of
                None \<Rightarrow> Inr st
              | Some pre \<Rightarrow>
                  (case listdir fs (fg_base (r_file r)) of
                     Inl e \<Rightarrow> Inl e
                   | Inr post \<Rightarrow>
                       (let diff = filter (\<lambda>p. p \<notin> set pre) (remdups post)
                        in if diff \<noteq> [] \<and> set F \<noteq> set diff
                           then Inr (log_add (ErrorUnexpected (filter (\<lambda>p. p \<notin> set F) diff)) st)
                           else Inr st))))"

subsection \<open>Concrete Runners\<close>

text \<open>
  The Runner of the repository's test \<open>test_getExpectedFiles\<close>: no \<open>base\<close>, the names
  \<open>/runner_0\<close> and \<open>runner_1\<close>, and two Differs with the names \<open>/differ_a\<close> and \<open>differ_b\<close>.
\<close>

definition no_git :: git_view where
  "no_git = \<lparr> git_root_dir = None, git_ls_files = (\<lambda>_. []) \<rparr>"

definition differ_named :: "string \<Rightarrow> file_group" where
  "differ_named n =
     \<lparr> fg_base = None, fg_names = Some [n], fg_check_created = None, fg_clean = True \<rparr>"

definition runner_with_differs :: runner_params where
  "runner_with_differs =
     \<lparr> r_name = ''run'',
       r_differs = Some [differ_named ''/differ_a'', differ_named ''differ_b''],
       r_file = \<lparr> fg_base = None, fg_names = Some [''/runner_0'', ''runner_1''],
                  fg_check_created = None, fg_clean = True \<rparr> \<rparr>"

text \<open>
  A Runner with \<open>base = /b\<close> and no expected files, in a file system where \<open>/b\<close> holds
  the file \<open>old\<close> and is the working directory.
\<close>

definition runner_in_b :: runner_params where
  "runner_in_b =
     \<lparr> r_name = ''run'', r_differs = None,
       r_file = \<lparr> fg_base = Some ''/b'', fg_names = None,
                  fg_check_created = Some True, fg_clean = True \<rparr> \<rparr>"

definition fs_b :: filesystem where
  "fs_b = \<lparr> fs_files = [''/b/old''], fs_dirs = [''/'', ''/b''], fs_cwd = ''/b'' \<rparr>"

text \<open>A Runner with \<open>base = /b\<close> that expects \<open>out.e\<close>, which is there before it runs.\<close>

definition runner_expecting :: runner_params where
  "runner_expecting =
     \<lparr> r_name = ''run'', r_differs = Some [differ_named ''/b/diff.csv''],
       r_file = \<lparr> fg_base = Some ''/b'', fg_names = Some [''out.e''],
                  fg_check_created = Some False, fg_clean = True \<rparr> \<rparr>"

definition fs_stale :: filesystem where
  "fs_stale = \<lparr> fs_files = [''/b/out.e'', ''/b/keep''], fs_dirs = [''/'', ''/b''], fs_cwd = ''/'' \<rparr>"

section \<open>Parser (factory/Parser.py)\<close>

subsection \<open>The block tree\<close>

text \<open>
  A value of a parameter as \<open>pyhit\<close> hands it over: a string, or a value of another
  Python type, kept as its \<open>str()\<close> text and its type.
\<close>

datatype py_type = TStr | TInt | TFloat | TBool | TList | TStructTime

datatype hit_value = Str string | Other string py_type

fun type_of :: "hit_value \<Rightarrow> py_type" where
  "type_of (Str s) = TStr"
| "type_of (Other s ty) = ty"

fun py_str :: "hit_value \<Rightarrow> string" where
  "py_str (Str s) = s"
| "py_str (Other s ty) = s"

text \<open>
  A block: its name, its parameters in file order (a name may occur more than once) and
  its child blocks.
\<close>

datatype hit_node = Node (node_name: string) (node_params: "(string \<times> hit_value) list")
  (node_children: "hit_node list")




subsection \<open>Diagnostics and the state of the Parser\<close>

datatype diag =
    LoadFailed
  | MissingType string
  | NoParameters hit_value string
  | UnknownParameter string hit_value
  | CreateFailed hit_value string
  | DuplicateSection string
  | DuplicateParameter string string
  | UnusedParameter string
  | RequiredMissing "string list"


subsection \<open>\<open>Parser.checkDuplicates\<close>\<close>




text \<open>
  The full paths \<open>checkDuplicates\<close> looks up, in the order of its traversal and each
  with its kind: for each block its own path and then the paths of its parameters.
\<close>

datatype path_kind = BlockPath | ParameterPath









text \<open>
  The repeats of a sequence of paths, given the paths seen before: the occurrences of a
  path after its first one.
\<close>

fun repeats :: "(path_kind \<times> string) list \<Rightarrow> string set \<Rightarrow> (path_kind \<times> string) list" where
  "repeats [] seen = []"
| "repeats (tp # tps) seen =
     (if snd tp \<in> seen then tp # repeats tps seen else repeats tps (insert (snd tp) seen))"

subsection \<open>\<open>Parser._parseNode\<close> and \<open>Parser.parse\<close>\<close>

text \<open>
  The Factory and the ParamSet class (\<open>InputParameters\<close>) are not among the sources;
  \<open>_parseNode\<close> is modelled over what it calls: \<open>factory.params(otype)\<close> and
  \<open>factory.create(otype, params)\<close>, which return \<open>None\<close> on failure, \<open>key in params\<close>,
  \<open>params.setValue\<close> and \<open>params.set\<close>, which may raise.
\<close>

record ('p, 'o) parser_env =
  factory_params :: "hit_value \<Rightarrow> 'p option"
  factory_create :: "hit_value \<Rightarrow> 'p \<Rightarrow> 'o option"
  params_contains :: "'p \<Rightarrow> string \<Rightarrow> bool"
  params_setValue :: "'p \<Rightarrow> string \<Rightarrow> string \<Rightarrow> py_error + 'p"
  params_set :: "'p \<Rightarrow> string \<Rightarrow> hit_value \<Rightarrow> py_error + 'p"

text \<open>
  The Parser's side of a run: the errors logged and the warehouse. A call returns the
  state it leaves and the exception it raises, if any.
\<close>

record 'o parser_state =
  p_log :: "diag list"
  p_warehouse :: "'o list"

definition log_error :: "diag \<Rightarrow> 'o parser_state \<Rightarrow> 'o parser_state" where
  "log_error d st = st \<lparr> p_log := p_log st @ [d] \<rparr>"

text \<open>The loop over \<open>node.params()\<close> in \<open>_parseNode\<close>.\<close>

fun set_params ::
  "('p, 'o) parser_env \<Rightarrow> hit_value \<Rightarrow> (string \<times> hit_value) list \<Rightarrow> 'p \<Rightarrow> 'o parser_state
     \<Rightarrow> (py_error + 'p) \<times> 'o parser_state" where
  "set_params env otype [] params st = (Inr params, st)"
| "set_params env otype ((key, v) # kvs) params st =
     (if key = ''type'' then set_params env otype kvs params st
      else
        (let st' = (if \<not> params_contains env params key
                    then log_error (UnknownParameter key otype) st else st)
         in case params_set env params key v of
              Inl e \<Rightarrow> (Inl e, st')
            | Inr params' \<Rightarrow> set_params env otype kvs params' st'))"

definition parseNode ::
  "('p, 'o) parser_env \<Rightarrow> string \<times> hit_node \<Rightarrow> 'o parser_state \<Rightarrow> 'o parser_state \<times> py_error option" where
  "parseNode env fn st =
     (case fn of (fullpath, node) \<Rightarrow>
        (case dict_get (node_params node) ''type'' of
           None \<Rightarrow> (log_error (MissingType fullpath) st, None)
         | Some otype \<Rightarrow>
             (case factory_params env otype of
                None \<Rightarrow> (log_error (NoParameters otype fullpath) st, None)
              | Some params0 \<Rightarrow>
                  (case params_setValue env params0 ''name'' (node_name node) of
                     Inl e \<Rightarrow> (st, Some e)
                   | Inr params1 \<Rightarrow>
                       (case set_params env otype (node_params node) params1 st of
                          (Inl e, st') \<Rightarrow> (st', Some e)
                        | (Inr params, st') \<Rightarrow>
                            (case factory_create env otype params of
                               None \<Rightarrow> (log_error (CreateFailed otype fullpath) st', None)
                             | Some obj \<Rightarrow>
                                 (st' \<lparr> p_warehouse := p_warehouse st' @ [obj] \<rparr>, None)))))))"



subsection \<open>A concrete Factory\<close>

text \<open>
  A ParamSet for concrete inputs: the declared names and the values assigned. The type
  \<open>Echo\<close> declares \<open>name\<close> and \<open>input\<close>; \<open>set\<close> is passed in.
\<close>

record simple_params =
  sp_declared :: "string list"
  sp_values :: "(string \<times> hit_value) list"

definition sp_assign :: "simple_params \<Rightarrow> string \<Rightarrow> hit_value \<Rightarrow> py_error + simple_params" where
  "sp_assign p k v = Inr (p \<lparr> sp_values := dict_set k v (sp_values p) \<rparr>)"

definition echo_params :: simple_params where
  "echo_params = \<lparr> sp_declared = [''name'', ''input''], sp_values = [] \<rparr>"

definition echo_env ::
  "(simple_params \<Rightarrow> string \<Rightarrow> hit_value \<Rightarrow> py_error + simple_params)
     \<Rightarrow> (simple_params, simple_params) parser_env" where
  "echo_env setter =
     \<lparr> factory_params = (\<lambda>otype. if otype = Str ''Echo'' then Some echo_params else None),
       factory_create = (\<lambda>otype p. Some p),
       params_contains = (\<lambda>p k. k \<in> set (sp_declared p)),
       params_setValue = (\<lambda>p k v. sp_assign p k (Str v)),
       params_set = setter \<rparr>"

definition Parser_init :: "'o parser_state" where
  "Parser_init = \<lparr> p_log = [], p_warehouse = [] \<rparr>"





text \<open>The leaf block \<open>[a] type = Echo bogus = 1 []\<close> under \<open>Tests\<close>.\<close>

definition block_bogus :: "string \<times> hit_node" where
  "block_bogus = (''Tests/a'', Node ''a'' [(''type'', Str ''Echo''), (''bogus'', Str ''1'')] [])"


subsection \<open>\<open>Parser.extractParams\<close>\<close>

text \<open>
  A character of a string stands for a code point below 256. Of these, the regular
  expression \<open>\s\<close> on a \<open>str\<close> matches the code points 9 to 13, 28 to 32, 133 (next
  line) and 160 (no-break space). \<open>re.split('\s+', s)\<close> gives the pieces between the runs
  of such characters, with an empty piece before a leading run and after a trailing one.
\<close>

definition is_space :: "char \<Rightarrow> bool" where
  "is_space c \<longleftrightarrow>
     c \<in> set [CHR 0x09, CHR 0x0A, CHR 0x0B, CHR 0x0C, CHR 0x0D,
               CHR 0x1C, CHR 0x1D, CHR 0x1E, CHR 0x1F, CHR 0x20, CHR 0x85, CHR 0xA0]"

function re_split_spaces :: "string \<Rightarrow> string list" where
  "re_split_spaces s =
     (if dropWhile (\<lambda>c. \<not> is_space c) s = [] then [s]
      else takeWhile (\<lambda>c. \<not> is_space c) s
             # re_split_spaces (dropWhile is_space (dropWhile (\<lambda>c. \<not> is_space c) s)))"
  by pat_completeness auto
termination
proof (relation "measure length")
  show "wf (measure length)" by simp
next
  fix s :: string
  assume a: "dropWhile (\<lambda>c. \<not> is_space c) s \<noteq> []"
  let ?rest = "dropWhile (\<lambda>c. \<not> is_space c) s"
  have "is_space (hd ?rest)"
    using a hd_dropWhile [of "\<lambda>c. \<not> is_space c" s] by simp
  then have "dropWhile is_space ?rest = dropWhile is_space (tl ?rest)"
    using a by (cases ?rest) auto
  moreover have "length (dropWhile is_space (tl ?rest)) \<le> length (tl ?rest)"
    by (rule length_dropWhile_le)
  ultimately have "length (dropWhile is_space ?rest) \<le> length (tl ?rest)"
    by (simp only:)
  also have "\<dots> < length ?rest" using a by simp
  also have "\<dots> \<le> length s" by (rule length_dropWhile_le)
  finally show "(dropWhile is_space ?rest, s) \<in> measure length" by simp
qed

declare re_split_spaces.simps [simp del]

text \<open>
  \<open>re.match('".*"', value)\<close>: the value starts with a double quote and another one follows
  before the first line break (\<open>.\<close> does not match a line break). \<open>value[1:-1]\<close> drops
  the first and the last character.
\<close>

definition re_match_quoted :: "string \<Rightarrow> bool" where
  "re_match_quoted v =
     (case v of
        [] \<Rightarrow> False
      | c # rest \<Rightarrow> c = CHR 0x22 \<and> CHR 0x22 \<in> set (takeWhile (\<lambda>x. x \<noteq> CHR 0x0A) rest))"

definition slice_1_m1 :: "string \<Rightarrow> string" where
  "slice_1_m1 v = butlast (tl v)"

text \<open>
  Modelled from the spec: the ParamSet as \<open>extractParams\<close> uses it (its class is not among
  the sources): the names it declares (\<open>key in params\<close>), the array-typed ones
  (\<open>params.type(key) == list\<close>), the strict types, the required keys, and the values
  assigned by \<open>params[key] = ...\<close>.
\<close>

datatype param_value =
    VStr string
  | VList "string list"
  | VRaw hit_value
  | VDate "nat \<times> nat \<times> nat"
  | VBool bool

record old_params =
  op_declared :: "string list"
  op_list_typed :: "string list"
  op_strict_types :: "(string \<times> py_type) list"
  op_required :: "string list"
  op_values :: "(string \<times> param_value) list"

definition setitem :: "string \<Rightarrow> param_value \<Rightarrow> old_params \<Rightarrow> old_params" where
  "setitem key v params = params \<lparr> op_values := dict_set key v (op_values params) \<rparr>"

text \<open>
  What \<open>extractParams\<close> reads and writes: the ParamSet, the errors logged, the attribute
  \<open>params_parsed\<close> of the Parser (\<open>None\<close> when the object has no such attribute: the
  assignment in \<open>__init__\<close> is commented out), and the locals \<open>local_parsed\<close> and
  \<open>have_err\<close>.
\<close>

record extract_state =
  x_params :: old_params
  x_log :: "diag list"
  x_params_parsed :: "string set option"
  x_local_parsed :: "string list"
  x_have_err :: bool

text \<open>
  The branch for a value that is not a quoted string and has a strict type. Formatting
  the two error messages reads the name \<open>child\<close>, which is not defined in
  \<open>extractParams\<close>: a \<open>NameError\<close>. \<open>strptime\<close> is \<open>time.strptime(value, "%m/%d/%Y")\<close>,
  \<open>None\<close> for its \<open>ValueError\<close>; it raises \<open>TypeError\<close> when the value is not a string.
\<close>

definition strict_assign ::
  "(string \<Rightarrow> (nat \<times> nat \<times> nat) option) \<Rightarrow> py_type \<Rightarrow> string \<Rightarrow> hit_value \<Rightarrow> old_params
     \<Rightarrow> py_error + old_params" where
  "strict_assign strptime strict_type key v params =
     (if strict_type = TStructTime
      then (case v of
              Str s \<Rightarrow> (case strptime s of
                          Some d \<Rightarrow> Inr (setitem key (VDate d) params)
                        | None \<Rightarrow> Inl NameError)
            | Other s ty \<Rightarrow> Inl TypeError)
      else if strict_type \<noteq> type_of v then Inl NameError
      else Inr params)"

text \<open>The body of the loop over \<open>getpot_node.params()\<close>, for one key and value.\<close>

definition extract_step ::
  "(string \<Rightarrow> (nat \<times> nat \<times> nat) option) \<Rightarrow> string \<Rightarrow> string \<times> hit_value \<Rightarrow> extract_state
     \<Rightarrow> extract_state \<times> py_error option" where
  "extract_step strptime fullpath kv xs0 =
     (case kv of (key, v) \<Rightarrow>
        (case x_params_parsed xs0 of
           None \<Rightarrow> (xs0, Some AttributeError)
         | Some parsed \<Rightarrow>
             (let xs = xs0 \<lparr> x_params_parsed := Some (insert (path_join fullpath key) parsed),
                             x_local_parsed := x_local_parsed xs0 @ [key] \<rparr>;
                  params = x_params xs
              in if key \<in> set (op_declared params) then
                   (if key \<in> set (op_list_typed params) then
                      (case v of
                         Str s \<Rightarrow>
                           (xs \<lparr> x_params := setitem key
                                   (VList (re_split_spaces (py_replace s [CHR 0x0A] '' '')))
                                   params \<rparr>, None)
                       | Other s ty \<Rightarrow>
                           (xs \<lparr> x_params := setitem key (VList [py_str v]) params \<rparr>, None))
                    else if (case v of Str s \<Rightarrow> re_match_quoted s | Other s ty \<Rightarrow> False) then
                      (xs \<lparr> x_params := setitem key (VStr (slice_1_m1 (py_str v))) params \<rparr>, None)
                    else
                      (case dict_get (op_strict_types params) key of
                         Some strict_type \<Rightarrow>
                           (case strict_assign strptime strict_type key v params of
                              Inl e \<Rightarrow> (xs, Some e)
                            | Inr params' \<Rightarrow> (xs \<lparr> x_params := params' \<rparr>, None))
                       | None \<Rightarrow> (xs \<lparr> x_params := setitem key (VRaw v) params \<rparr>, None)))
                 else (xs \<lparr> x_log := x_log xs @ [UnusedParameter key] \<rparr>, None))))"

fun extract_loop ::
  "(string \<Rightarrow> (nat \<times> nat \<times> nat) option) \<Rightarrow> string \<Rightarrow> (string \<times> hit_value) list \<Rightarrow> extract_state
     \<Rightarrow> extract_state \<times> py_error option" where
  "extract_loop strptime fullpath [] xs = (xs, None)"
| "extract_loop strptime fullpath (kv # kvs) xs =
     (case extract_step strptime fullpath kv xs of
        (xs', Some e) \<Rightarrow> (xs', Some e)
      | (xs', None) \<Rightarrow> extract_loop strptime fullpath kvs xs')"

text \<open>
  \<open>extractParams\<close>: the loop, then the check of the required keys, then
  \<open>params['have_errors'] = have_err\<close>.
\<close>

definition extractParams ::
  "(string \<Rightarrow> (nat \<times> nat \<times> nat) option) \<Rightarrow> old_params \<Rightarrow> string \<times> hit_node
     \<Rightarrow> diag list \<times> string set option
     \<Rightarrow> extract_state \<times> py_error option" where
  "extractParams strptime params fn parser =
     (case extract_loop strptime (fst fn) (node_params (snd fn))
             \<lparr> x_params = params, x_log = fst parser, x_params_parsed = snd parser,
               x_local_parsed = [], x_have_err = False \<rparr> of
        (xs, Some e) \<Rightarrow> (xs, Some e)
      | (xs, None) \<Rightarrow>
          (let missing = filter (\<lambda>k. k \<notin> set (x_local_parsed xs)) (op_required (x_params xs));
               xs' = (if length missing > 0
                      then xs \<lparr> x_log := x_log xs @ [RequiredMissing missing], x_have_err := True \<rparr>
                      else xs)
           in (xs' \<lparr> x_params := setitem ''have_errors'' (VBool (x_have_err xs')) (x_params xs') \<rparr>,
               None)))"

text \<open>
  A ParamSet with the scalar parameter \<open>input\<close> and the array-typed parameter
  \<open>cli_args\<close>, and the text \<open>"x y"\<close> with its quotes.
\<close>

definition sample_params :: old_params where
  "sample_params =
     \<lparr> op_declared = [''type'', ''input'', ''cli_args''], op_list_typed = [''cli_args''],
       op_strict_types = [], op_required = [], op_values = [] \<rparr>"

definition quoted_x_y :: string where
  "quoted_x_y = [CHR 0x22] @ ''x y'' @ [CHR 0x22]"

section \<open>QueueManager: the reap pass\<close>

subsection \<open>The results file, Jobs and Testers\<close>

text \<open>
  The values of the results file: strings, numbers and arrays of strings. An object is a
  dictionary from field names to values. The file maps a test directory to the entries of
  its tests by name.
\<close>

datatype 'n jval = JString string | JNumber 'n | JArray "string list"

type_synonym 'n jobject = "(string \<times> 'n jval) list"

type_synonym 'n results_file = "(string \<times> (string \<times> 'n jobject) list) list"

text \<open>Python's truth value of such a value, and \<open>sep.join(xs)\<close>.\<close>

fun truthy :: "'n::zero jval \<Rightarrow> bool" where
  "truthy (JString s) = (s \<noteq> [])"
| "truthy (JNumber n) = (n \<noteq> 0)"
| "truthy (JArray xs) = (xs \<noteq> [])"

fun py_join :: "string \<Rightarrow> string list \<Rightarrow> string" where
  "py_join sep [] = []"
| "py_join sep [x] = x"
| "py_join sep (x # y # ys) = x @ sep @ py_join sep (y # ys)"

text \<open>\<open>s.encode('ascii', 'ignore')\<close>: the characters outside ASCII are dropped.\<close>

definition ascii_ignore :: "string \<Rightarrow> string" where
  "ascii_ignore s = filter (\<lambda>c. (of_char c :: nat) < 128) s"

text \<open>
  Modelled from the spec: the Tester and the Job of the scheduler (their classes are not
  among the sources). A Tester has a status (none yet, silent, skip, or one built by
  \<open>createStatus\<close> from a status text and a color) and a list of caveats, to which
  \<open>addCaveats\<close> appends. A Job has its test name, whether it is finished, its Tester, the
  previous time, the output and the metadata.
\<close>

datatype tester_status = NoStatus | Silent | Skip | Created string string

record tester =
  t_status :: tester_status
  t_caveats :: "string list"

record 'n job =
  j_name :: string
  j_finished :: bool
  j_tester :: tester
  j_previous_time :: "'n jval option"
  j_output :: "'n jval option"
  j_meta :: "(string \<times> string) list"

definition isSilent :: "tester \<Rightarrow> bool" where
  "isSilent t = (t_status t = Silent)"

definition setStatus :: "tester_status \<Rightarrow> 'n job \<Rightarrow> 'n job" where
  "setStatus s job = job \<lparr> j_tester := (j_tester job) \<lparr> t_status := s \<rparr> \<rparr>"

definition addCaveats :: "string \<Rightarrow> 'n job \<Rightarrow> 'n job" where
  "addCaveats c job =
     job \<lparr> j_tester := (j_tester job) \<lparr> t_caveats := t_caveats (j_tester job) @ [c] \<rparr> \<rparr>"

subsection \<open>\<open>QueueManager._setJobStatus\<close>\<close>

text \<open>
  \<open>job_results[field]\<close> raises \<open>KeyError\<close> for a missing field; \<open>.encode\<close> exists on
  strings only; \<open>' '.join\<close> takes the strings of an array, or the characters of a string,
  and raises \<open>TypeError\<close> on a number.
\<close>

definition get_field :: "'n jobject \<Rightarrow> string \<Rightarrow> py_error + 'n jval" where
  "get_field e k = (case dict_get e k of None \<Rightarrow> Inl KeyError | Some v \<Rightarrow> Inr v)"

definition encode_ascii :: "'n jval \<Rightarrow> py_error + string" where
  "encode_ascii v = (case v of JString s \<Rightarrow> Inr (ascii_ignore s) | _ \<Rightarrow> Inl AttributeError)"

definition join_caveats :: "'n jval \<Rightarrow> py_error + string" where
  "join_caveats v =
     (case v of
        JArray xs \<Rightarrow> Inr (py_join '' '' xs)
      | JString s \<Rightarrow> Inr (py_join '' '' (map (\<lambda>c. [c]) s))
      | JNumber n \<Rightarrow> Inl TypeError)"

text \<open>
  The branch for a Job that has an entry in the results: the state of the Job when the
  branch ends or raises, and the exception if any.
\<close>

definition apply_results :: "'n::zero jobject \<Rightarrow> 'n job \<Rightarrow> 'n job \<times> py_error option" where
  "apply_results job_results job =
     (case get_field job_results ''STATUS'' of
        Inl e \<Rightarrow> (job, Some e)
      | Inr sv \<Rightarrow>
     (case encode_ascii sv of
        Inl e \<Rightarrow> (job, Some e)
      | Inr result_status \<Rightarrow>
     (case get_field job_results ''COLOR'' of
        Inl e \<Rightarrow> (job, Some e)
      | Inr cv \<Rightarrow>
     (case encode_ascii cv of
        Inl e \<Rightarrow> (job, Some e)
      | Inr result_color \<Rightarrow>
     (let job1 = setStatus (Created result_status result_color) job
      in case get_field job_results ''TIMING'' of
        Inl e \<Rightarrow> (job1, Some e)
      | Inr timing \<Rightarrow>
     (let job2 = job1 \<lparr> j_previous_time := Some timing \<rparr>
      in case get_field job_results ''CAVEATS'' of
        Inl e \<Rightarrow> (job2, Some e)
      | Inr caveats \<Rightarrow>
     (case (if truthy caveats
            then (case join_caveats caveats of
                    Inl e \<Rightarrow> Inl e
                  | Inr text \<Rightarrow> Inr (addCaveats text job2))
            else Inr job2) of
        Inl e \<Rightarrow> (job2, Some e)
      | Inr job3 \<Rightarrow>
     (case get_field job_results ''OUTPUT'' of
        Inl e \<Rightarrow> (job3, Some e)
      | Inr output \<Rightarrow> (job3 \<lparr> j_output := Some output \<rparr>, None)))))))))"

text \<open>The body of the loop for one Job.\<close>

definition set_one_status ::
  "(string \<times> 'n::zero jobject) list \<Rightarrow> 'n job \<Rightarrow> 'n job \<times> py_error option" where
  "set_one_status group_results job0 =
     (let job = job0 \<lparr> j_finished := True \<rparr>
      in if isSilent (j_tester job) then (job, None)
         else (case dict_get group_results (j_name job) of
                 None \<Rightarrow> (setStatus Skip (addCaveats ''not originally launched'' job), None)
               | Some job_results \<Rightarrow>
                   if job_results = []
                   then (setStatus Skip (addCaveats ''not originally launched'' job), None)
                   else apply_results job_results job))"

fun set_statuses ::
  "(string \<times> 'n::zero jobject) list \<Rightarrow> 'n job list \<Rightarrow> 'n job list \<times> py_error option" where
  "set_statuses group_results [] = ([], None)"
| "set_statuses group_results (job # jobs) =
     (case set_one_status group_results job of
        (job', Some e) \<Rightarrow> (job' # jobs, Some e)
      | (job', None) \<Rightarrow>
          (case set_statuses group_results jobs of (jobs', e) \<Rightarrow> (job' # jobs', e)))"

text \<open>
  \<open>_setJobStatus\<close>: \<open>parsed\<close> is the content of the results file of the test directory,
  or \<open>None\<close> when it is not JSON (the message for that case is built by calling a string,
  a \<open>TypeError\<close>); \<open>stored\<close> is \<open>results_storage[job_dir][plugin]\<close>, or \<open>None\<close> for its
  \<open>KeyError\<close>.
\<close>

definition setJobStatus ::
  "'n::zero results_file option \<Rightarrow> string \<Rightarrow> string \<Rightarrow> string option \<Rightarrow> 'n job list
     \<Rightarrow> 'n job list \<times> py_error option" where
  "setJobStatus parsed job_dir plugin stored job_list =
     (case job_list of
        [] \<Rightarrow> ([], None)
      | first # others \<Rightarrow>
          (case parsed of
             None \<Rightarrow> (job_list, Some TypeError)
           | Some results \<Rightarrow>
               (case dict_get results job_dir of
                  None \<Rightarrow> (job_list, Some KeyError)
                | Some group_results \<Rightarrow>
                    (case stored of
                       None \<Rightarrow> (job_list, Some KeyError)
                     | Some data \<Rightarrow>
                         set_statuses group_results
                           (first \<lparr> j_meta := dict_set plugin data (j_meta first) \<rparr> # others)))))"

subsection \<open>The reap pass in the words of the specification\<close>

text \<open>
  The persisted layout of an entry, in the words of the specification: STATUS is a
  string, COLOR a string or a pair, TIMING a number, CAVEATS an array of strings and
  OUTPUT a string.
\<close>

fun is_JString :: "'n jval option \<Rightarrow> bool" where
  "is_JString (Some (JString s)) = True"
| "is_JString _ = False"

fun is_JNumber :: "'n jval option \<Rightarrow> bool" where
  "is_JNumber (Some (JNumber n)) = True"
| "is_JNumber _ = False"

fun is_JArray :: "'n jval option \<Rightarrow> bool" where
  "is_JArray (Some (JArray xs)) = True"
| "is_JArray _ = False"

fun is_pair :: "'n jval option \<Rightarrow> bool" where
  "is_pair (Some (JArray [a, b])) = True"
| "is_pair _ = False"

definition layout_entry :: "'n jobject \<Rightarrow> bool" where
  "layout_entry e \<longleftrightarrow>
     is_JString (dict_get e ''STATUS'')
     \<and> (is_JString (dict_get e ''COLOR'') \<or> is_pair (dict_get e ''COLOR''))
     \<and> is_JNumber (dict_get e ''TIMING'') \<and> is_JArray (dict_get e ''CAVEATS'')
     \<and> is_JString (dict_get e ''OUTPUT'')"

definition string_field :: "'n jobject \<Rightarrow> string \<Rightarrow> string" where
  "string_field e k = (case dict_get e k of Some (JString s) \<Rightarrow> s | _ \<Rightarrow> [])"

definition array_field :: "'n jobject \<Rightarrow> string \<Rightarrow> string list" where
  "array_field e k = (case dict_get e k of Some (JArray xs) \<Rightarrow> xs | _ \<Rightarrow> [])"

text \<open>
  What the pass does to one Job, given the entries of the group: \<open>job\<close> is the Job
  before the pass and \<open>job'\<close> the Job after it.
\<close>

definition reaped :: "(string \<times> 'n jobject) list \<Rightarrow> 'n job \<Rightarrow> 'n job \<Rightarrow> bool" where
  "reaped group_results job job' \<longleftrightarrow>
     j_finished job' \<and> j_name job' = j_name job
     \<and> (if isSilent (j_tester job)
         then j_tester job' = j_tester job
              \<and> j_previous_time job' = j_previous_time job \<and> j_output job' = j_output job
         else (case dict_get group_results (j_name job) of
                 None \<Rightarrow>
                   t_status (j_tester job') = Skip
                   \<and> t_caveats (j_tester job')
                       = t_caveats (j_tester job) @ [''not originally launched'']
                   \<and> j_previous_time job' = j_previous_time job
                   \<and> j_output job' = j_output job
               | Some e \<Rightarrow>
                   t_status (j_tester job')
                     = Created (ascii_ignore (string_field e ''STATUS''))
                         (ascii_ignore (string_field e ''COLOR''))
                   \<and> j_previous_time job' = dict_get e ''TIMING''
                   \<and> j_output job' = dict_get e ''OUTPUT''
                   \<and> t_caveats (j_tester job')
                       = t_caveats (j_tester job)
                         @ (if array_field e ''CAVEATS'' = [] then []
                            else [py_join '' '' (array_field e ''CAVEATS'')])))"

subsection \<open>A concrete group of Jobs\<close>

definition new_job :: "string \<Rightarrow> tester_status \<Rightarrow> int job" where
  "new_job n s =
     \<lparr> j_name = n, j_finished = False, j_tester = \<lparr> t_status = s, t_caveats = [] \<rparr>,
       j_previous_time = None, j_output = None, j_meta = [] \<rparr>"

definition ok_entry :: "int jobject" where
  "ok_entry =
     [(''STATUS'', JString ''OK''), (''COLOR'', JString ''GREEN''), (''TIMING'', JNumber 3),
      (''CAVEATS'', JArray [''recovered'', ''slow'']), (''OUTPUT'', JString ''done'')]"

definition sample_results :: "int results_file" where
  "sample_results = [(''/t'', [(''quiet'', ok_entry), (''a'', ok_entry)])]"

definition sample_jobs :: "int job list" where
  "sample_jobs = [new_job ''a'' NoStatus, new_job ''quiet'' Silent, new_job ''b'' NoStatus]"

text \<open>A Job that has a caveat before the pass.\<close>

definition job_with_caveat :: "int job" where
  "job_with_caveat =
     \<lparr> j_name = ''a'', j_finished = False,
       j_tester = \<lparr> t_status = NoStatus, t_caveats = [''known''] \<rparr>,
       j_previous_time = None, j_output = None, j_meta = [] \<rparr>"

text \<open>
  An entry whose STATUS ends in a character outside ASCII (code point 233), and an entry
  whose COLOR is a pair.
\<close>

definition accented_entry :: "int jobject" where
  "accented_entry =
     [(''STATUS'', JString (''OK'' @ [CHR 0xE9])), (''COLOR'', JString ''GREEN''),
      (''TIMING'', JNumber 3), (''CAVEATS'', JArray []), (''OUTPUT'', JString ''done'')]"

definition pair_entry :: "int jobject" where
  "pair_entry =
     [(''STATUS'', JString ''FATAL''), (''COLOR'', JArray [''white'', ''red_1'']),
      (''TIMING'', JNumber 3), (''CAVEATS'', JArray []), (''OUTPUT'', JString ''done'')]"

section \<open>Properties of TestCase.execute\<close>

text \<open>
  A \<open>TestCase\<close> as \<open>__init__\<close> leaves it has no Controller: \<open>execute\<close> raises
  \<open>AttributeError\<close> in the Runner stage. With a Controller and without Differs
  (\<open>differs\<close> not set), a Runner stage that passes is followed by a \<open>TypeError\<close>.
\<close>

lemma execute_without_controller:
  "execute_trace (TestCase_init runner differs) = Inl AttributeError"
  by (simp add: execute_trace_def executeObject_def TestCase_init_def)

lemma execute_without_differs:
  assumes "tc_controller tc = Some ctl" and "tc_differs tc = None"
    and "\<not> (runner_result ctl tc = SKIP \<or> exitcode (runner_result ctl tc) > 0)"
  shows "execute_trace tc = Inl TypeError"
  using assms
  by (auto simp: execute_trace_def executeObject_def runner_result_def split: prod.splits)



lemma run_stage_sample [simp]:
  "run_stage sample_controller (object_named n) args =
     (if n = ''skipped'' then (SKIP, [], None)
      else if n = ''fatal'' then (FATAL, ''error'', None)
      else if n = ''error'' then (ERROR, ''error'', Some 0)
      else (PASS, ''ok'', Some 0))"
  by (simp add: run_stage_def sample_controller_def object_named_def plain_control_def
      plain_execution_def)

lemma obj_name_object_named [simp]: "obj_name (object_named n) = n"
  by (simp add: object_named_def)



section \<open>Properties of the QueueManager\<close>

text \<open>
  C10: in QueueManager mode \<open>reserveSlots\<close> returns True for every Job and every lock
  argument, whatever the Job's slot demand and whatever the slot budget and the slots
  already in use.
\<close>

theorem reserveSlots_always_True:
  "reserveSlots \<lparr> slot_budget = budget, slots_in_use = used \<rparr> \<lparr> job_slots = demand \<rparr> j_lock"
  by (simp add: reserveSlots_def)

section \<open>Properties of the submission script\<close>

lemma py_replace_empty_old [simp]:
  "py_replace s [] new = new @ concat (map (\<lambda>c. c # new) s)"
  by (simp add: py_replace.simps)

lemma py_replace_Nil [simp]: "py_replace [] old new = (if old = [] then new else [])"
  by (simp add: py_replace.simps)

lemma py_replace_Cons [simp]:
  "py_replace (c # cs) (p # ps) new =
     (if starts_with (c # cs) (p # ps)
      then new @ py_replace (drop (length ps) cs) (p # ps) new
      else c # py_replace cs (p # ps) new)"
  by (subst py_replace.simps) simp

lemma py_replace_absent:
  "old \<noteq> [] \<Longrightarrow> \<not> py_in old s \<Longrightarrow> py_replace s old new = s"
  by (induction s) (auto simp: neq_Nil_conv)

lemma starts_with_iff: "starts_with s p \<longleftrightarrow> (\<exists>r. s = p @ r)"
  by (induction s p rule: starts_with.induct) auto

lemma py_in_iff: "py_in sub s \<longleftrightarrow> (\<exists>a b. s = a @ sub @ b)"
proof (induction s)
  case Nil
  show ?case by auto
next
  case (Cons c cs)
  show ?case
  proof
    assume "py_in sub (c # cs)"
    then consider "starts_with (c # cs) sub" | "py_in sub cs" by auto
    then show "\<exists>a b. c # cs = a @ sub @ b"
    proof cases
      case 1
      then obtain r where "c # cs = sub @ r" by (auto simp: starts_with_iff)
      then have "c # cs = [] @ sub @ r" by simp
      then show ?thesis by blast
    next
      case 2
      then obtain a b where "cs = a @ sub @ b" using Cons.IH by blast
      then have "c # cs = (c # a) @ sub @ b" by simp
      then show ?thesis by blast
    qed
  next
    assume "\<exists>a b. c # cs = a @ sub @ b"
    then obtain a b where ab: "c # cs = a @ sub @ b" by blast
    show "py_in sub (c # cs)"
    proof (cases a)
      case Nil
      then have "starts_with (c # cs) sub" using ab by (auto simp: starts_with_iff)
      then show ?thesis by simp
    next
      case (Cons x a')
      then have "cs = a' @ sub @ b" using ab by simp
      then have "py_in sub cs" using Cons.IH by blast
      then show ?thesis by simp
    qed
  qed
qed

lemma py_in_placeholder: "py_in (placeholder key) s \<Longrightarrow> py_in (py_upper key) s"
proof -
  assume "py_in (placeholder key) s"
  then obtain a b where "s = a @ placeholder key @ b" by (auto simp: py_in_iff)
  then have "s = (a @ ''<'') @ py_upper key @ (''>'' @ b)" by (simp add: placeholder_def)
  then show ?thesis unfolding py_in_iff by blast
qed

text \<open>
  The second loop never changes the text: it replaces the placeholder of a key only when
  the upper-cased key does not occur in the text, and then the placeholder does not occur
  either.
\<close>

lemma strip_unsupplied_id: "strip_unsupplied keys content = content"
proof (induction keys arbitrary: content)
  case Nil
  show ?case by simp
next
  case (Cons k ks)
  have "\<not> py_in (py_upper k) content \<Longrightarrow> py_replace content (placeholder k) [] = content"
    using py_in_placeholder py_replace_absent [of "placeholder k" content "[]"]
    by (auto simp: placeholder_def)
  then show ?case using Cons.IH by simp
qed

lemma createQueueScript_content:
  "createQueueScript (Some content) True str_of template = Inr (path, script)
     \<Longrightarrow> script = replace_supplied str_of template content"
  by (auto simp: createQueueScript_def strip_unsupplied_id split: option.splits)

text \<open>
  C8, the code at a template with the placeholders WALLTIME and QUEUE and an executor Job
  that supplies \<open>launch_script\<close> and \<open>walltime\<close>: the script is written, WALLTIME is
  replaced by the value, and the placeholder of the key that is not supplied is still in
  the written script.
\<close>

theorem createQueueScript_keeps_unsupplied:
  "createQueueScript (Some ''#PBS -l walltime=<WALLTIME> -q <QUEUE>'') True id
       [(''launch_script'', ''job.sh''), (''walltime'', ''10'')]
     = Inr (''job.sh'', ''#PBS -l walltime=10 -q <QUEUE>'')
   \<and> py_in (placeholder ''queue'') ''#PBS -l walltime=10 -q <QUEUE>''
   \<and> dict_get [(''launch_script'', ''job.sh''), (''walltime'', ''10'')] ''queue'' = None"
  by (simp add: createQueueScript_def placeholder_def py_upper_def upper_char_def)

section \<open>Properties of RedirectOutput\<close>

lemma getvalue_dict_set: "getvalue (dict_set t v d) t' = (if t' = t then v else getvalue d t')"
  by (induction d) (auto simp: getvalue_def)

lemma sys_write_fields [simp]:
  "redirected (sys_write w s) = redirected s"
  "main_thread (sys_write w s) = main_thread s"
  "log_handlers (sys_write w s) = log_handlers s"
  by (cases w; cases "fst w"; simp add: sys_write_def to_buffer_def to_terminal_def)+

lemma sys_write_out:
  "redirected s \<Longrightarrow> t \<noteq> main_thread s \<Longrightarrow>
   getvalue (out_buffers (sys_write (st, t', msg) s)) t
     = getvalue (out_buffers s) t @ (if st = Stdout \<and> t' = t then msg else [])"
  by (cases st) (auto simp: sys_write_def to_buffer_def to_terminal_def getvalue_dict_set)

lemma sys_write_err:
  "redirected s \<Longrightarrow> t \<noteq> main_thread s \<Longrightarrow>
   getvalue (err_buffers (sys_write (st, t', msg) s)) t
     = getvalue (err_buffers s) t @ (if st = Stderr \<and> t' = t then msg else [])"
  by (cases st) (auto simp: sys_write_def to_buffer_def to_terminal_def getvalue_dict_set)

lemma sys_write_terminal:
  "redirected s \<Longrightarrow>
   terminal_stdout (sys_write (st, t', msg) s)
     = terminal_stdout s @ (if st = Stdout \<and> t' = main_thread s then msg else [])"
  by (cases st) (auto simp: sys_write_def to_buffer_def to_terminal_def)

text \<open>
  Within the scope, the buffers of a worker thread hold exactly what that thread wrote,
  stream by stream, and the main thread's text goes to the original stream.
\<close>

lemma sys_writes_buffers:
  "redirected s \<Longrightarrow> t \<noteq> main_thread s \<Longrightarrow>
   getvalue (out_buffers (sys_writes ws s)) t = getvalue (out_buffers s) t @ written_by Stdout t ws
   \<and> getvalue (err_buffers (sys_writes ws s)) t = getvalue (err_buffers s) t @ written_by Stderr t ws"
proof (induction ws arbitrary: s)
  case Nil
  show ?case by (simp add: sys_writes_def written_by_def)
next
  case (Cons w ws)
  obtain st t' msg where w: "w = (st, t', msg)" by (cases w) auto
  have r: "redirected (sys_write w s)" and m: "t \<noteq> main_thread (sys_write w s)"
    using Cons.prems by simp_all
  have step: "sys_writes (w # ws) s = sys_writes ws (sys_write w s)"
    by (simp add: sys_writes_def)
  have wb: "written_by x t (w # ws) = (if st = x \<and> t' = t then msg else []) @ written_by x t ws"
    for x by (simp add: written_by_def w)
  show ?case
    using Cons.IH [OF r m] sys_write_out [OF Cons.prems, of st t' msg]
      sys_write_err [OF Cons.prems, of st t' msg]
    unfolding step wb by (auto simp: w)
qed

lemma redirect_stdout_exact:
  assumes "redirect_enter (RedirectOutput_init main handlers) = Inr s" and "t \<noteq> main"
  shows "redirect_stdout (sys_writes ws s) t = Inr (written_by Stdout t ws)"
proof -
  have s: "s = (RedirectOutput_init main handlers) \<lparr> redirected := True \<rparr>"
    using assms(1) by (auto simp: redirect_enter_def split: if_splits)
  have "redirected s" "t \<noteq> main_thread s" "getvalue (out_buffers s) t = []"
    using assms(2) by (simp_all add: s RedirectOutput_init_def getvalue_def)
  then show ?thesis
    using sys_writes_buffers [of s t ws]
    by (simp add: redirect_stdout_def read_attr_def RedirectOutput_attrs_def deref_def)
qed

text \<open>
  C7, the stderr accessor on the code: in every state of the scope and for every thread,
  reading \<open>stderr\<close> raises \<open>AttributeError\<close>, since the accessor reads an attribute named
  \<open>_stdrr\<close> and the object has \<open>_stdout\<close> and \<open>_stderr\<close> only. So after a worker thread
  has written to standard error within the scope, the accessor does not return that text.
\<close>

theorem redirect_stderr_raises:
  "redirect_stderr (sys_writes ws s) t = Inl AttributeError"
  by (simp add: redirect_stderr_def read_attr_def RedirectOutput_attrs_def)

section \<open>Properties of the Runner's file checks\<close>

lemma add_differs_PySet:
  "add_differs (d # ds) (PySet xs) = Inl TypeError"
  by simp

text \<open>
  A Runner without \<open>base\<close> that has at least one Differ cannot compute its expected
  files: \<open>filenames\<close> returns a set and \<open>+=\<close> raises.
\<close>

lemma getExpectedFiles_raises:
  "fg_base (r_file r) = None \<Longrightarrow> r_differs r = Some (d # ds) \<Longrightarrow> getExpectedFiles r = Inl TypeError"
  by (simp add: getExpectedFiles_def filenames_def)

lemma clean_files_cwd: "fs_cwd (snd (clean_files F sf)) = fs_cwd (snd sf)"
  by (induction F sf rule: clean_files.induct) (auto simp: os_remove_def)

lemma clean_files_subset: "set (fs_files (snd (clean_files F sf))) \<subseteq> set (fs_files (snd sf))"
  by (induction F sf rule: clean_files.induct) (auto simp: os_remove_def)

lemma clean_files_removed: "f \<in> set F \<Longrightarrow> \<not> isfile (snd (clean_files F sf)) f"
proof (induction F sf rule: clean_files.induct)
  case (1 sf)
  then show ?case by simp
next
  case (2 fname fnames st fs)
  let ?sf = "if isfile fs fname then (log_add (InfoRemoving fname) st, os_remove fname fs)
       else (st, fs)"
  show ?case
  proof (cases "f \<in> set fnames")
    case True
    then show ?thesis using "2.IH" by simp
  next
    case False
    then have f: "f = fname" using "2.prems" by simp
    have gone: "\<not> isfile (snd ?sf) fname"
      by (auto simp: isfile_def os_remove_def abspath_def)
    have "fs_cwd (snd (clean_files fnames ?sf)) = fs_cwd (snd ?sf)"
      by (rule clean_files_cwd)
    moreover have "set (fs_files (snd (clean_files fnames ?sf))) \<subseteq> set (fs_files (snd ?sf))"
      by (rule clean_files_subset)
    ultimately have "\<not> isfile (snd (clean_files fnames ?sf)) fname"
      using gone unfolding isfile_def abspath_def by auto
    then show ?thesis by (simp add: f)
  qed
qed

lemma clean_files_log: "is_error e \<Longrightarrow>
  e \<in> set (r_log (fst (clean_files F sf))) \<Longrightarrow> e \<in> set (r_log (fst sf))"
  by (induction F sf rule: clean_files.induct) (auto simp: log_add_def split: if_splits)

text \<open>
  When the expected files \<open>E\<close> can be computed: a path that is not absolute is rejected
  with the file system untouched; so is a path that is version-controlled.
\<close>

lemma preExecute_rejects_relative:
  assumes "getExpectedFiles r = Inr E" and "\<exists>f \<in> set (elems E). \<not> isabs f"
  shows "preExecute git r st fs =
    Inr (log_add (ErrorNotAbsolute (filter (\<lambda>f. \<not> isabs f) (elems E)))
           (st \<lparr> expected_files := Some E \<rparr>), fs)"
  using assms by (auto simp: preExecute_def Let_def filter_empty_conv)

lemma preExecute_rejects_tracked:
  assumes "getExpectedFiles r = Inr E" and "\<forall>f \<in> set (elems E). isabs f"
    and "tracked git r (elems E) \<noteq> []"
  shows "preExecute git r st fs =
    Inr (log_add (ErrorTracked (tracked git r (elems E))) (st \<lparr> expected_files := Some E \<rparr>), fs)"
  using assms by (auto simp: preExecute_def Let_def filter_empty_conv)

text \<open>
  With \<open>clean\<close> true, absolute and untracked expected files never lead to the "already
  exist" error, and none of them exists when \<open>preExecute\<close> returns, whatever was there
  before.
\<close>

lemma preExecute_cleans:
  assumes E: "getExpectedFiles r = Inr E" and ab: "\<forall>f \<in> set (elems E). isabs f"
    and tr: "tracked git r (elems E) = []" and cl: "fg_clean (r_file r)"
    and res: "preExecute git r st fs = Inr (st', fs')"
  shows "\<forall>f \<in> set (elems E). \<not> isfile fs' f"
proof -
  let ?st = "st \<lparr> expected_files := Some E \<rparr>"
  obtain st1 fs1 where c: "clean_files (elems E) (?st, fs) = (st1, fs1)"
    by (cases "clean_files (elems E) (?st, fs)") auto
  have gone: "\<forall>f \<in> set (elems E). \<not> isfile fs1 f"
    using clean_files_removed [of _ "elems E" "(?st, fs)"] c by auto
  then have ex: "filter (isfile fs1) (elems E) = []"
    by (simp add: filter_empty_conv)
  have na: "filter (\<lambda>f. \<not> isabs f) (elems E) = []"
    using ab by (simp add: filter_empty_conv)
  have "fs' = fs1"
    using res by (auto simp: preExecute_def Let_def E na tr cl c ex split: sum.splits)
  then show ?thesis using gone by simp
qed

text \<open>
  For example, a Runner with \<open>base = /b\<close> that expects \<open>out.e\<close> and, through its
  Differ, \<open>/b/diff.csv\<close>: the stale \<open>/b/out.e\<close> is removed, nothing is rejected, and the
  other file of \<open>/b\<close> stays.
\<close>

lemma preExecute_removes_stale_file:
  "preExecute no_git runner_expecting Runner_init fs_stale =
     Inr (\<lparr> expected_files = Some (PyList [''/b/out.e'', ''/b/diff.csv'']),
            pre_execute_files = None, r_log = [InfoRemoving ''/b/out.e''] \<rparr>,
          \<lparr> fs_files = [''/b/keep''], fs_dirs = [''/'', ''/b''], fs_cwd = ''/'' \<rparr>)"
  by (simp add: preExecute_def getExpectedFiles_def runner_expecting_def differ_named_def
      filenames_def no_git_def tracked_def Runner_init_def fs_stale_def
      store_directory_content_def isfile_def os_remove_def abspath_def path_join_def isabs_def
      log_add_def Let_def)

text \<open>
  C2, the code at the Runner of \<open>test_getExpectedFiles\<close> (two Differs, no \<open>base\<close>, the
  relative names \<open>runner_1\<close> and \<open>differ_b\<close> among the expected ones): whatever the
  repository, the state and the file system, \<open>preExecute\<close> raises \<open>TypeError\<close> while
  computing the expected files; it neither logs the error for the paths that are not
  absolute nor returns.
\<close>

theorem preExecute_with_differs_raises:
  "preExecute git runner_with_differs st fs = Inl TypeError
   \<and> getExpectedFiles runner_with_differs = Inl TypeError
   \<and> filter (\<lambda>f. \<not> isabs f) [''/runner_0'', ''runner_1'', ''/differ_a'', ''differ_b'']
       = [''runner_1'', ''differ_b'']"
  by (simp add: preExecute_def getExpectedFiles_def runner_with_differs_def filenames_def
      isabs_def)

text \<open>
  C3, the code at a Runner with \<open>base = /b\<close>, \<open>check_created\<close> enabled and no expected
  files, where \<open>/b\<close> holds the file \<open>old\<close> before the run and nothing else after it:
  \<open>preExecute\<close> records the joined path \<open>/b/old\<close>, \<open>postExecute\<close> compares the bare
  entry names of \<open>/b\<close> with it and reports \<open>old\<close> as created but not expected, although
  no file was created.
\<close>

theorem postExecute_reports_old_file:
  "preExecute no_git runner_in_b Runner_init fs_b
     = Inr (\<lparr> expected_files = Some (PyList []), pre_execute_files = Some [''/b/old''],
              r_log = [] \<rparr>, fs_b)
   \<and> listdir fs_b (Some ''/b'') = Inr [''old'']
   \<and> postExecute runner_in_b
        \<lparr> expected_files = Some (PyList []), pre_execute_files = Some [''/b/old''], r_log = [] \<rparr>
        fs_b
     = Inr \<lparr> expected_files = Some (PyList []), pre_execute_files = Some [''/b/old''],
             r_log = [ErrorUnexpected [''old'']] \<rparr>"
  by (simp add: preExecute_def postExecute_def getExpectedFiles_def runner_in_b_def
      filenames_def no_git_def tracked_def Runner_init_def fs_b_def store_directory_content_def
      listdir_def entry_name_def abspath_def path_join_def isabs_def List.map_filter_def
      log_add_def Let_def)

section \<open>Properties of the Parser\<close>







lemma repeats_empty: "repeats xs S = [] \<longleftrightarrow> distinct (map snd xs) \<and> snd ` set xs \<inter> S = {}"
  by (induction xs arbitrary: S) auto


















text \<open>
  C6, the code at the leaf block \<open>[a] type = Echo bogus = 1 []\<close>, where the ParamSet of
  \<open>Echo\<close> declares \<open>name\<close> and \<open>input\<close> only, for any behaviour \<open>setter\<close> of
  \<open>params.set\<close>: the diagnostic for the unknown parameter is logged and \<open>params.set\<close>
  is still called with \<open>bogus\<close>. When that call raises, the exception leaves
  \<open>_parseNode\<close>; when it returns, the object is created from the ParamSet it returned.
  With a \<open>set\<close> that assigns, the object has the parameter \<open>bogus\<close>.
\<close>

theorem parseNode_sets_unknown_parameter:
  "parseNode (echo_env setter) block_bogus Parser_init =
     (case setter (echo_params \<lparr> sp_values := [(''name'', Str ''a'')] \<rparr>) ''bogus'' (Str ''1'') of
        Inl e \<Rightarrow> (\<lparr> p_log = [UnknownParameter ''bogus'' (Str ''Echo'')], p_warehouse = [] \<rparr>, Some e)
      | Inr p \<Rightarrow> (\<lparr> p_log = [UnknownParameter ''bogus'' (Str ''Echo'')], p_warehouse = [p] \<rparr>, None))
   \<and> parseNode (echo_env sp_assign) block_bogus Parser_init =
       (\<lparr> p_log = [UnknownParameter ''bogus'' (Str ''Echo'')],
          p_warehouse = [\<lparr> sp_declared = [''name'', ''input''],
             sp_values = [(''name'', Str ''a''), (''bogus'', Str ''1'')] \<rparr>] \<rparr>, None)"
  by (simp add: parseNode_def block_bogus_def echo_env_def echo_params_def sp_assign_def
      Parser_init_def log_error_def split: sum.splits)

subsection \<open>Quoted values\<close>

lemma dict_get_dict_set: "dict_get (dict_set k v d) k' = (if k' = k then Some v else dict_get d k')"
  by (induction d) auto

lemma re_match_quoted_wrapped:
  "CHR 0x0A \<notin> set s \<Longrightarrow> re_match_quoted (CHR 0x22 # s @ [CHR 0x22])"
proof -
  assume "CHR 0x0A \<notin> set s"
  then have "takeWhile (\<lambda>x. x \<noteq> CHR 0x0A) (s @ [CHR 0x22]) = s @ [CHR 0x22]"
    by auto
  then show ?thesis by (simp add: re_match_quoted_def)
qed

lemma slice_wrapped: "slice_1_m1 (c # s @ [d]) = s"
  by (simp add: slice_1_m1_def butlast_append)

text \<open>
  The only code of the Parser that strips quotes is in \<open>extractParams\<close>, which \<open>parse\<close>
  and \<open>_parseNode\<close> do not call. On a Parser object as \<open>__init__\<close> leaves it, without the
  attribute \<open>params_parsed\<close>, \<open>extractParams\<close> raises on the first parameter of the
  block. On an object that has been given the attribute, a block with a quoted value and
  a parameter that the ParamSet does not declare is processed to the end: the quotes are
  stripped, the unknown parameter is reported and not assigned.
\<close>

lemma extractParams_without_attribute:
  "extractParams strptime params (fullpath, Node n (kv # kvs) cs) (log, None)
     = (\<lparr> x_params = params, x_log = log, x_params_parsed = None, x_local_parsed = [],
          x_have_err = False \<rparr>, Some AttributeError)"
  by (cases kv) (simp add: extractParams_def extract_step_def)

lemma extractParams_example:
  "extractParams (\<lambda>_. None) sample_params
     (''Tests/a'', Node ''a'' [(''type'', Str ''Echo''), (''input'', Str quoted_x_y),
        (''bogus'', Str ''1'')] []) ([], Some {})
   = (\<lparr> x_params = sample_params \<lparr> op_values :=
          [(''type'', VRaw (Str ''Echo'')), (''input'', VStr ''x y''),
           (''have_errors'', VBool False)] \<rparr>,
        x_log = [UnusedParameter ''bogus''],
        x_params_parsed = Some {''Tests/a/type'', ''Tests/a/input'', ''Tests/a/bogus''},
        x_local_parsed = [''type'', ''input'', ''bogus''], x_have_err = False \<rparr>, None)"
  by (simp add: extractParams_def extract_step_def sample_params_def quoted_x_y_def
      re_match_quoted_def slice_1_m1_def setitem_def path_join_def isabs_def Let_def
      insert_commute)

text \<open>
  The branch of \<open>extractParams\<close> for a quoted value, on an object that has been given
  the attribute \<open>params_parsed\<close>: for a parameter that the ParamSet declares and that is
  not array-typed, a string value wrapped in double quotes whose content has no line
  break is assigned with exactly the two enclosing quotes removed.
\<close>

lemma extract_step_quoted:
  assumes "x_params_parsed xs = Some parsed"
    and "key \<in> set (op_declared (x_params xs))"
    and "key \<notin> set (op_list_typed (x_params xs))"
    and "CHR 0x0A \<notin> set s"
  shows "snd (extract_step strptime fullpath (key, Str (CHR 0x22 # s @ [CHR 0x22])) xs) = None
    \<and> dict_get (op_values (x_params
          (fst (extract_step strptime fullpath (key, Str (CHR 0x22 # s @ [CHR 0x22])) xs)))) key
        = Some (VStr s)
    \<and> x_log (fst (extract_step strptime fullpath (key, Str (CHR 0x22 # s @ [CHR 0x22])) xs))
        = x_log xs"
  using assms re_match_quoted_wrapped [OF assms(4)]
  by (simp add: extract_step_def Let_def setitem_def dict_get_dict_set slice_wrapped)


section \<open>Properties of the reap pass\<close>

lemma is_JString_iff: "is_JString v \<longleftrightarrow> (\<exists>s. v = Some (JString s))"
  by (cases v rule: is_JString.cases) auto

lemma is_JNumber_iff: "is_JNumber v \<longleftrightarrow> (\<exists>n. v = Some (JNumber n))"
  by (cases v rule: is_JNumber.cases) auto

lemma is_JArray_iff: "is_JArray v \<longleftrightarrow> (\<exists>xs. v = Some (JArray xs))"
  by (cases v rule: is_JArray.cases) auto

lemma apply_results_layout:
  assumes "layout_entry e" and "is_JString (dict_get e ''COLOR'')"
  shows "apply_results e job =
    ((if array_field e ''CAVEATS'' = []
      then setStatus (Created (ascii_ignore (string_field e ''STATUS''))
             (ascii_ignore (string_field e ''COLOR''))) job \<lparr> j_previous_time := dict_get e ''TIMING'' \<rparr>
      else addCaveats (py_join '' '' (array_field e ''CAVEATS''))
             (setStatus (Created (ascii_ignore (string_field e ''STATUS''))
                (ascii_ignore (string_field e ''COLOR''))) job
              \<lparr> j_previous_time := dict_get e ''TIMING'' \<rparr>))
       \<lparr> j_output := dict_get e ''OUTPUT'' \<rparr>, None)"
proof -
  obtain s c t cs out where f:
    "dict_get e ''STATUS'' = Some (JString s)" "dict_get e ''COLOR'' = Some (JString c)"
    "dict_get e ''TIMING'' = Some (JNumber t)" "dict_get e ''CAVEATS'' = Some (JArray cs)"
    "dict_get e ''OUTPUT'' = Some (JString out)"
    using assms unfolding layout_entry_def is_JString_iff is_JArray_iff is_JNumber_iff by auto
  show ?thesis
    by (simp add: apply_results_def get_field_def encode_ascii_def join_caveats_def
        string_field_def array_field_def Let_def f)
qed

lemma layout_entry_not_empty: "layout_entry e \<Longrightarrow> e \<noteq> []"
  by (auto simp: layout_entry_def)

lemma set_one_status_reaped:
  assumes "\<And>e. \<not> isSilent (j_tester job) \<Longrightarrow> dict_get grp (j_name job) = Some e
    \<Longrightarrow> layout_entry e \<and> is_JString (dict_get e ''COLOR'')"
  shows "snd (set_one_status grp job) = None
    \<and> reaped grp job (fst (set_one_status grp job))"
proof (cases "isSilent (j_tester job)")
  case True
  then show ?thesis
    by (simp add: set_one_status_def reaped_def Let_def)
next
  case False
  show ?thesis
  proof (cases "dict_get grp (j_name job)")
    case None
    then show ?thesis
      using False
      by (simp add: set_one_status_def reaped_def Let_def setStatus_def addCaveats_def
          isSilent_def)
  next
    case (Some e)
    have le: "layout_entry e" and col: "is_JString (dict_get e ''COLOR'')"
      using assms [OF False Some] by auto
    have ne: "e \<noteq> []" by (rule layout_entry_not_empty [OF le])
    show ?thesis
      using False Some ne
      by (simp add: set_one_status_def reaped_def Let_def apply_results_layout [OF le col]
          setStatus_def addCaveats_def isSilent_def)
  qed
qed

lemma set_statuses_reaped:
  assumes "\<forall>job \<in> set jobs. \<forall>e. \<not> isSilent (j_tester job) \<longrightarrow>
    dict_get grp (j_name job) = Some e \<longrightarrow> layout_entry e \<and> is_JString (dict_get e ''COLOR'')"
  shows "snd (set_statuses grp jobs) = None
    \<and> list_all2 (reaped grp) jobs (fst (set_statuses grp jobs))"
  using assms
proof (induction jobs)
  case Nil
  show ?case by simp
next
  case (Cons job jobs)
  have "snd (set_one_status grp job) = None \<and> reaped grp job (fst (set_one_status grp job))"
    by (rule set_one_status_reaped) (use Cons.prems in simp)
  then obtain job' where one: "set_one_status grp job = (job', None)" "reaped grp job job'"
    by (cases "set_one_status grp job") auto
  have "snd (set_statuses grp jobs) = None
      \<and> list_all2 (reaped grp) jobs (fst (set_statuses grp jobs))"
    by (rule Cons.IH) (use Cons.prems in simp)
  then obtain jobs' where rest: "set_statuses grp jobs = (jobs', None)"
    "list_all2 (reaped grp) jobs jobs'"
    by (cases "set_statuses grp jobs") auto
  show ?case by (simp add: one rest)
qed

lemma reaped_meta:
  "reaped grp (job \<lparr> j_meta := m \<rparr>) job' = reaped grp job job'"
  by (cases "dict_get grp (j_name job)") (simp_all add: reaped_def)

text \<open>
  An entry whose COLOR is a pair stops the pass: \<open>.encode\<close> raises \<open>AttributeError\<close> on
  the pair, the Job of the entry is finished with its status untouched, and the Jobs
  after it are not reached.
\<close>

lemma setJobStatus_color_pair:
  "setJobStatus (Some [(''/t'', [(''a'', pair_entry)])]) ''/t'' ''QM'' (Some ''id'')
       [new_job ''a'' NoStatus, new_job ''b'' NoStatus]
     = ([(new_job ''a'' NoStatus) \<lparr> j_finished := True, j_meta := [(''QM'', ''id'')] \<rparr>,
         new_job ''b'' NoStatus], Some AttributeError)"
  by (simp add: setJobStatus_def new_job_def pair_entry_def set_one_status_def isSilent_def
      apply_results_def get_field_def encode_ascii_def ascii_ignore_def Let_def)

text \<open>
  C9, as the code has it. With a results file that has the test directory, in which the
  entry of every Job that is not silent, if there is one, follows the persisted layout
  and has a string as COLOR, \<open>_setJobStatus\<close> raises nothing and, for every Job of the
  group: the Job ends FINISHED; a silent Job is otherwise left as it was; a Job that is
  not silent and has an entry gets the status built from the ASCII characters of STATUS
  and COLOR, the TIMING and the OUTPUT of the entry, and, when CAVEATS is not empty, one
  more caveat after those it had, the CAVEATS joined by blanks; a Job that is not silent
  and has no entry gets the status skip and one more caveat, "not originally launched".
\<close>

theorem setJobStatus_reaps:
  assumes "dict_get results job_dir = Some grp"
    and "\<forall>job \<in> set jobs. \<forall>e. \<not> isSilent (j_tester job) \<longrightarrow>
      dict_get grp (j_name job) = Some e \<longrightarrow> layout_entry e \<and> is_JString (dict_get e ''COLOR'')"
  shows "snd (setJobStatus (Some results) job_dir plugin (Some data) jobs) = None
    \<and> length (fst (setJobStatus (Some results) job_dir plugin (Some data) jobs)) = length jobs
    \<and> (\<forall>i < length jobs.
          reaped grp (jobs ! i)
            (fst (setJobStatus (Some results) job_dir plugin (Some data) jobs) ! i))"
proof (cases jobs)
  case Nil
  then show ?thesis by (simp add: setJobStatus_def)
next
  case (Cons first others)
  let ?jobs1 = "first \<lparr> j_meta := dict_set plugin data (j_meta first) \<rparr> # others"
  have run: "setJobStatus (Some results) job_dir plugin (Some data) jobs
      = set_statuses grp ?jobs1"
    by (simp add: setJobStatus_def Cons assms(1))
  have wf: "\<forall>job \<in> set ?jobs1. \<forall>e. \<not> isSilent (j_tester job) \<longrightarrow>
      dict_get grp (j_name job) = Some e \<longrightarrow> layout_entry e \<and> is_JString (dict_get e ''COLOR'')"
    using assms(2) by (simp add: Cons)
  have r: "snd (set_statuses grp ?jobs1) = None"
    "list_all2 (reaped grp) ?jobs1 (fst (set_statuses grp ?jobs1))"
    using set_statuses_reaped [OF wf] by auto
  have "list_all2 (reaped grp) jobs (fst (set_statuses grp ?jobs1))"
    using r(2) by (cases "fst (set_statuses grp ?jobs1)") (auto simp: Cons reaped_meta)
  then show ?thesis
    using r(1) by (simp add: run list_all2_conv_all_nth)
qed

text \<open>
  C9, the theorem at a group of three Jobs with the results of two of them: the Job \<open>a\<close>
  gets status, timing, output and the joined caveats of its entry, and the Job \<open>b\<close>,
  which has no entry, is skipped as not originally launched.
\<close>

theorem setJobStatus_reaps_witness:
  "dict_get sample_results ''/t'' = Some [(''quiet'', ok_entry), (''a'', ok_entry)]
   \<and> layout_entry ok_entry \<and> is_JString (dict_get ok_entry ''COLOR'')
   \<and> snd (setJobStatus (Some sample_results) ''/t'' ''QM'' (Some ''id'') sample_jobs) = None
   \<and> j_finished (fst (setJobStatus (Some sample_results) ''/t'' ''QM'' (Some ''id'') sample_jobs) ! 0)
   \<and> t_status (j_tester
         (fst (setJobStatus (Some sample_results) ''/t'' ''QM'' (Some ''id'') sample_jobs) ! 0))
       = Created ''OK'' ''GREEN''
   \<and> t_caveats (j_tester
         (fst (setJobStatus (Some sample_results) ''/t'' ''QM'' (Some ''id'') sample_jobs) ! 0))
       = [''recovered slow'']
   \<and> j_previous_time
         (fst (setJobStatus (Some sample_results) ''/t'' ''QM'' (Some ''id'') sample_jobs) ! 0)
       = Some (JNumber 3)
   \<and> t_status (j_tester
         (fst (setJobStatus (Some sample_results) ''/t'' ''QM'' (Some ''id'') sample_jobs) ! 2))
       = Skip
   \<and> t_caveats (j_tester
         (fst (setJobStatus (Some sample_results) ''/t'' ''QM'' (Some ''id'') sample_jobs) ! 2))
       = [''not originally launched'']"
proof -
  let ?grp = "[(''quiet'', ok_entry), (''a'', ok_entry)]"
  let ?after = "fst (setJobStatus (Some sample_results) ''/t'' ''QM'' (Some ''id'') sample_jobs)"
  have h1: "dict_get sample_results ''/t'' = Some ?grp"
    by (simp add: sample_results_def)
  have ok: "layout_entry ok_entry" "is_JString (dict_get ok_entry ''COLOR'')"
    by (simp_all add: layout_entry_def ok_entry_def)
  have h2: "\<forall>job \<in> set sample_jobs. \<forall>e. \<not> isSilent (j_tester job) \<longrightarrow>
      dict_get ?grp (j_name job) = Some e \<longrightarrow> layout_entry e \<and> is_JString (dict_get e ''COLOR'')"
    using ok by (simp add: sample_jobs_def new_job_def)
  note t = setJobStatus_reaps [OF h1 h2, of "''QM''" "''id''"]
  have len: "length sample_jobs = 3" by (simp add: sample_jobs_def)
  have every: "\<forall>i < length sample_jobs. reaped ?grp (sample_jobs ! i) (?after ! i)"
    using t by blast
  have a: "reaped ?grp (sample_jobs ! 0) (?after ! 0)"
    using every [rule_format, of 0] len by simp
  have b: "reaped ?grp (sample_jobs ! 2) (?after ! 2)"
    using every [rule_format, of 2] len by simp
  have e: "dict_get ?grp (j_name (sample_jobs ! 0)) = Some ok_entry"
    "dict_get ?grp (j_name (sample_jobs ! 2)) = None"
    "\<not> isSilent (j_tester (sample_jobs ! 0))" "\<not> isSilent (j_tester (sample_jobs ! 2))"
    "t_caveats (j_tester (sample_jobs ! 0)) = []" "t_caveats (j_tester (sample_jobs ! 2)) = []"
    by (simp_all add: sample_jobs_def new_job_def isSilent_def)
  have f: "string_field ok_entry ''STATUS'' = ''OK''" "string_field ok_entry ''COLOR'' = ''GREEN''"
    "array_field ok_entry ''CAVEATS'' = [''recovered'', ''slow'']"
    "dict_get ok_entry ''TIMING'' = Some (JNumber 3)"
    by (simp_all add: ok_entry_def string_field_def array_field_def)
  have g: "ascii_ignore ''OK'' = ''OK''" "ascii_ignore ''GREEN'' = ''GREEN''"
    by (simp_all add: ascii_ignore_def)
  have a': "j_finished (?after ! 0)"
    "t_status (j_tester (?after ! 0)) = Created ''OK'' ''GREEN''"
    "t_caveats (j_tester (?after ! 0)) = [''recovered slow'']"
    "j_previous_time (?after ! 0) = Some (JNumber 3)"
    using a unfolding reaped_def e by (simp_all add: e f g)
  have b': "t_status (j_tester (?after ! 2)) = Skip"
    "t_caveats (j_tester (?after ! 2)) = [''not originally launched'']"
    using b unfolding reaped_def e by (simp_all add: e)
  have n: "snd (setJobStatus (Some sample_results) ''/t'' ''QM'' (Some ''id'') sample_jobs) = None"
    using t by blast
  show ?thesis
    using h1 ok n a' b' by blast
qed

text \<open>
  C9 as stated fails in three ways. A silent Job that has an entry with STATUS OK is
  FINISHED after the pass but still silent, without timing, output or caveats. For a Job
  that has the caveat \<open>known\<close> and an entry with the CAVEATS \<open>recovered\<close> and \<open>slow\<close>,
  the caveats after the pass are \<open>known\<close> and \<open>recovered slow\<close>. For an entry whose
  STATUS is \<open>OK\<close> followed by a character outside ASCII, the status is built from \<open>OK\<close>.
\<close>

theorem setJobStatus_silent_counterexample:
  "dict_get ok_entry ''STATUS'' = Some (JString ''OK'')
   \<and> dict_get ok_entry ''CAVEATS'' = Some (JArray [''recovered'', ''slow''])
   \<and> setJobStatus (Some [(''/t'', [(''quiet'', ok_entry)])]) ''/t'' ''QM'' (Some ''id'')
         [new_job ''quiet'' Silent]
       = ([\<lparr> j_name = ''quiet'', j_finished = True,
             j_tester = \<lparr> t_status = Silent, t_caveats = [] \<rparr>,
             j_previous_time = None, j_output = None, j_meta = [(''QM'', ''id'')] \<rparr>], None)
   \<and> setJobStatus (Some [(''/t'', [(''a'', ok_entry)])]) ''/t'' ''QM'' (Some ''id'')
         [job_with_caveat]
       = ([\<lparr> j_name = ''a'', j_finished = True,
             j_tester = \<lparr> t_status = Created ''OK'' ''GREEN'',
                          t_caveats = [''known'', ''recovered slow''] \<rparr>,
             j_previous_time = Some (JNumber 3), j_output = Some (JString ''done''),
             j_meta = [(''QM'', ''id'')] \<rparr>], None)
   \<and> dict_get accented_entry ''STATUS'' = Some (JString (''OK'' @ [CHR 0xE9]))
   \<and> setJobStatus (Some [(''/t'', [(''a'', accented_entry)])]) ''/t'' ''QM'' (Some ''id'')
         [new_job ''a'' NoStatus]
       = ([\<lparr> j_name = ''a'', j_finished = True,
             j_tester = \<lparr> t_status = Created ''OK'' ''GREEN'', t_caveats = [] \<rparr>,
             j_previous_time = Some (JNumber 3), j_output = Some (JString ''done''),
             j_meta = [(''QM'', ''id'')] \<rparr>], None)"
  by (simp add: setJobStatus_def new_job_def job_with_caveat_def ok_entry_def accented_entry_def
      set_one_status_def isSilent_def apply_results_def get_field_def encode_ascii_def
      ascii_ignore_def join_caveats_def setStatus_def addCaveats_def Let_def)

end
